theory Spec2Isabelle
  imports Complex_Main
begin

section \<open>Numbers\<close>

text \<open>
  In the model of the scene and of the component's life cycle a JavaScript number is
  an exact real, or \<open>NaN\<close>: the one non-real value that the orbit code can produce
  structurally (adding \<open>undefined\<close>, the result of reading a missing key, to a number).
  Rounding is not modelled here: \<open>+\<close>, \<open>*\<close>, \<open>Math.cos\<close> and \<open>Math.sin\<close> are the exact
  operations. What the accumulated angle is exactly, digit for digit, is settled on the
  binary64 model of the orbit update further down.
\<close>

datatype num = Num real | NaN

fun num_add :: "num \<Rightarrow> num \<Rightarrow> num" where
  "num_add (Num a) (Num b) = Num (a + b)"
| "num_add _ _ = NaN"

fun num_mul :: "num \<Rightarrow> num \<Rightarrow> num" where
  "num_mul (Num a) (Num b) = Num (a * b)"
| "num_mul _ _ = NaN"

fun num_cos :: "num \<Rightarrow> num" where
  "num_cos (Num a) = Num (cos a)"
| "num_cos NaN = NaN"

fun num_sin :: "num \<Rightarrow> num" where
  "num_sin (Num a) = Num (sin a)"
| "num_sin NaN = NaN"

section \<open>Planet descriptors\<close>

record planet_data =
  name :: string
  color :: nat
  size_f :: real
  distance :: real
  speed :: real

text \<open>The table \<open>planetsData\<close>; the colours are the source's hexadecimal constants.\<close>

definition planetsData :: "planet_data list" where
  "planetsData =
   [\<lparr>name = ''Mercury'', color = 11184810, size_f = 0.3, distance = 4, speed = 0.04\<rparr>,
    \<lparr>name = ''Venus'', color = 16755200, size_f = 0.5, distance = 6, speed = 0.015\<rparr>,
    \<lparr>name = ''Earth'', color = 3381759, size_f = 0.6, distance = 8, speed = 0.01\<rparr>,
    \<lparr>name = ''Mars'', color = 16724736, size_f = 0.5, distance = 10, speed = 0.008\<rparr>,
    \<lparr>name = ''Jupiter'', color = 16764057, size_f = 1.1, distance = 13, speed = 0.004\<rparr>,
    \<lparr>name = ''Saturn'', color = 16777113, size_f = 1.0, distance = 16, speed = 0.003\<rparr>,
    \<lparr>name = ''Uranus'', color = 10092543, size_f = 0.8, distance = 19, speed = 0.002\<rparr>,
    \<lparr>name = ''Neptune'', color = 4474111, size_f = 0.8, distance = 22, speed = 0.0015\<rparr>]"

section \<open>Scene objects and planet runtime state\<close>

text \<open>
  The identity of an object added to the scene, in the order of the \<open>scene.add\<close> calls;
  the planet meshes are numbered by their index in \<open>planetsData\<close>. Comparing identities
  is the source's \<open>===\<close> on objects.
\<close>

datatype obj = Light | Sun | StarField | PlanetMesh nat

record vec3 =
  pos_x :: num
  pos_y :: num
  pos_z :: num

record mesh =
  mesh_id :: obj
  position :: vec3

text \<open>The spread \<open>{ ...data, angle }\<close>: a copy of the descriptor with one more field.\<close>

record orbit_data = planet_data +
  angle :: num

record planet =
  mesh :: mesh
  data :: orbit_data

text \<open>A \<open>THREE.Mesh\<close> is created at the origin (the rendering library's default position).\<close>

definition new_mesh :: "obj \<Rightarrow> mesh" where
  "new_mesh i = \<lparr>mesh_id = i, position = \<lparr>pos_x = Num 0, pos_y = Num 0, pos_z = Num 0\<rparr>\<rparr>"

text \<open>
  \<open>Math.random\<close> is an explicit sequence of outcomes \<open>rnd\<close>, read at a running index.
  \<open>new_planet rnd k i d\<close> is the body of the \<open>planetsData.map\<close> callback for the
  descriptor \<open>d\<close> at index \<open>i\<close>, when \<open>k\<close> draws were made before the map started.
\<close>

definition new_planet :: "(nat \<Rightarrow> real) \<Rightarrow> nat \<Rightarrow> nat \<Rightarrow> planet_data \<Rightarrow> planet" where
  "new_planet rnd k i d =
     \<lparr>mesh = new_mesh (PlanetMesh i),
      data = \<lparr>name = name d, color = color d, size_f = size_f d, distance = distance d,
              speed = speed d, angle = Num (rnd (k + i) * pi * 2)\<rparr>\<rparr>"

definition new_planets :: "(nat \<Rightarrow> real) \<Rightarrow> nat \<Rightarrow> planet list" where
  "new_planets rnd k = map (\<lambda>(i, d). new_planet rnd k i d) (enumerate 0 planetsData)"

section \<open>The per-frame orbit update\<close>

type_synonym speeds_obj = "string \<rightharpoonup> num"

text \<open>\<open>speeds[data.name]\<close>: a missing key reads \<open>undefined\<close>, which is NaN in arithmetic.\<close>

definition lookup_speed :: "speeds_obj \<Rightarrow> string \<Rightarrow> num" where
  "lookup_speed sp n = (case sp n of Some v \<Rightarrow> v | None \<Rightarrow> NaN)"

text \<open>The body of the \<open>planets.forEach\<close> callback in \<open>animate\<close>.\<close>

definition animate_planet :: "speeds_obj \<Rightarrow> planet \<Rightarrow> planet" where
  "animate_planet sp p =
     (let a = num_add (angle (data p)) (lookup_speed sp (name (data p)));
          d = Num (distance (data p))
      in \<lparr>mesh = (mesh p)\<lparr>position := (position (mesh p))
                    \<lparr>pos_x := num_mul (num_cos a) d, pos_z := num_mul (num_sin a) d\<rparr>\<rparr>,
          data = (data p)\<lparr>angle := a\<rparr>\<rparr>)"

text \<open>
  The planet part of one call of \<open>animate\<close>; \<open>paused\<close> and \<open>sp\<close> are the values of
  \<open>isPaused\<close> and \<open>speeds\<close> that the closure captured.
\<close>

definition animate_planets :: "bool \<Rightarrow> speeds_obj \<Rightarrow> planet list \<Rightarrow> planet list" where
  "animate_planets paused sp planets =
     (if \<not> paused then map (animate_planet sp) planets else planets)"

section \<open>The pointer picker\<close>

text \<open>A CSS length: the string \<open>n + "px"\<close> for the number \<open>n\<close>.\<close>

datatype css_len = Px real

text \<open>The tooltip element: the three inline style properties the handler writes, and its text.\<close>

record tooltip =
  style_left :: "css_len option"
  style_top :: "css_len option"
  style_display :: "string option"
  innerHTML :: string

record mouse_event =
  clientX :: real
  clientY :: real

text \<open>
  The two assignments to \<open>mouse.x\<close> and \<open>mouse.y\<close>, for the window's \<open>innerWidth\<close> and
  \<open>innerHeight\<close>. (For a window of width or height 0 the source divides by zero; the
  properties below are stated for positive sizes.)
\<close>

definition mouse_ndc :: "real \<Rightarrow> real \<Rightarrow> mouse_event \<Rightarrow> real \<times> real" where
  "mouse_ndc innerWidth innerHeight event =
     ((clientX event / innerWidth) * 2 - 1, - (clientY event / innerHeight) * 2 + 1)"

text \<open>
  \<open>onMouseMove\<close>. The rendering library's ray test is the parameter \<open>intersectObjects\<close>:
  for the pointer in normalized coordinates (and the camera, which it encloses) and the
  list of objects to test, it gives the identities of the objects hit, nearest first.
  \<open>tooltipRef\<close> is \<open>tooltipRef.current\<close>, \<open>None\<close> when it is null.
\<close>

definition onMouseMove ::
  "(real \<times> real \<Rightarrow> mesh list \<Rightarrow> obj list) \<Rightarrow> real \<Rightarrow> real \<Rightarrow> planet list \<Rightarrow> mouse_event
     \<Rightarrow> tooltip option \<Rightarrow> tooltip option" where
  "onMouseMove intersectObjects innerWidth innerHeight planets event tooltipRef =
     (let mouse = mouse_ndc innerWidth innerHeight event;
          intersects = intersectObjects mouse (map mesh planets)
      in case intersects of
           hit # _ \<Rightarrow>
             (case (find (\<lambda>p. mesh_id (mesh p) = hit) planets, tooltipRef) of
                (Some planet, Some t) \<Rightarrow>
                  Some (t\<lparr>style_left := Some (Px (clientX event + 10)),
                          style_top := Some (Px (clientY event + 10)),
                          innerHTML := name (data planet),
                          style_display := Some ''block''\<rparr>)
              | _ \<Rightarrow> tooltipRef)
         | [] \<Rightarrow>
             (case tooltipRef of
                Some t \<Rightarrow> Some (t\<lparr>style_display := Some ''none''\<rparr>)
              | None \<Rightarrow> None))"

section \<open>The component and its host\<close>

text \<open>
  One run of the effect body creates a closure: the values of \<open>speeds\<close> and \<open>isPaused\<close>
  it captured, and the scene it built. A closure is named by its index in the list of
  all runs; that index also names the objects only this run owns: its canvas
  (\<open>renderer.domElement\<close>) and its functions \<open>animate\<close>, \<open>onMouseMove\<close>, \<open>handleResize\<close>.
\<close>

record closure =
  c_speeds :: nat
  c_isPaused :: bool
  c_scene :: "obj list"
  c_starPositions :: "real list"
  c_planets :: "planet list"

text \<open>
  The state of the component and of the parts of the page it touches.
  \<^item> \<open>heap\<close>: the speed-mapping objects, by address; \<open>speeds\<close> is the address held by the
    React state of that name, so that two variables can share one object.
  \<^item> \<open>mountRef\<close>: the children (canvases) of the container element, or \<open>None\<close> when
    \<open>mountRef.current\<close> is null.
  \<^item> \<open>listeners\<close>: the listeners on \<open>window\<close>, as event type and owning closure.
  \<^item> \<open>raf\<close>: the callbacks requested for the next animation frame (\<open>animate\<close> of the
    closure named).
  \<^item> \<open>draws\<close>: the number of \<open>Math.random\<close> calls so far.
\<close>

record app =
  heap :: "speeds_obj list"
  speeds :: nat
  isPaused :: bool
  mountRef :: "nat list option"
  tooltipRef :: "tooltip option"
  listeners :: "(string \<times> nat) list"
  raf :: "nat list"
  effects :: "closure list"
  draws :: nat

datatype error = TypeError | NotFoundError

text \<open>\<open>Object.fromEntries\<close>: a later entry replaces an earlier one with the same key.\<close>

definition fromEntries :: "(string \<times> num) list \<Rightarrow> speeds_obj" where
  "fromEntries es = foldl (\<lambda>m (k, v). m(k \<mapsto> v)) Map.empty es"

text \<open>The initializer of the \<open>speeds\<close> state.\<close>

definition initial_speeds :: speeds_obj where
  "initial_speeds = fromEntries (map (\<lambda>p. (name p, Num (speed p))) planetsData)"

text \<open>
  The component after its first render and before its effect has run: both refs are
  attached, the container is empty and the tooltip has no inline style and no text.
\<close>

definition init_app :: app where
  "init_app =
     \<lparr>heap = [initial_speeds], speeds = 0, isPaused = False, mountRef = Some [],
      tooltipRef = Some \<lparr>style_left = None, style_top = None, style_display = None,
                         innerHTML = []\<rparr>,
      listeners = [], raf = [], effects = [], draws = 0\<rparr>"

definition starCount :: nat where
  "starCount = 10000"

text \<open>The loop filling \<open>starPositions\<close>: three draws for each star, \<open>k\<close> draws made before.\<close>

definition starPositions :: "(nat \<Rightarrow> real) \<Rightarrow> nat \<Rightarrow> real list" where
  "starPositions rnd k = map (\<lambda>j. (rnd (k + j) - 0.5) * 2000) [0..<3 * starCount]"

text \<open>
  The host's \<open>window.addEventListener\<close> (a listener already present is not added again)
  and \<open>window.removeEventListener\<close>.
\<close>

definition addEventListener :: "string \<Rightarrow> nat \<Rightarrow> app \<Rightarrow> app" where
  "addEventListener ty f a =
     (if (ty, f) \<in> set (listeners a) then a else a\<lparr>listeners := listeners a @ [(ty, f)]\<rparr>)"

definition removeEventListener :: "string \<Rightarrow> nat \<Rightarrow> app \<Rightarrow> app" where
  "removeEventListener ty f a = a\<lparr>listeners := removeAll (ty, f) (listeners a)\<rparr>"

text \<open>The host's \<open>requestAnimationFrame\<close>: the callback runs once, at the next frame.\<close>

definition requestAnimationFrame :: "nat \<Rightarrow> app \<Rightarrow> app" where
  "requestAnimationFrame i a = a\<lparr>raf := raf a @ [i]\<rparr>"

text \<open>
  \<open>animate\<close> of closure \<open>i\<close>: it requests itself for the next frame, then moves its
  planets unless its captured \<open>isPaused\<close> is true (\<open>controls.update\<close> and
  \<open>renderer.render\<close> change nothing that is modelled). The function exists only once
  its closure does, and the closure's \<open>speeds\<close> is an object that exists, so both list
  reads are of existing references.
\<close>

definition animate :: "nat \<Rightarrow> app \<Rightarrow> app" where
  "animate i a =
     (let a1 = requestAnimationFrame i a;
          c = effects a1 ! i
      in a1\<lparr>effects := (effects a1)
              [i := c\<lparr>c_planets :=
                        animate_planets (c_isPaused c) (heap a1 ! c_speeds c) (c_planets c)\<rparr>]\<rparr>)"

text \<open>
  The effect body, from the scene setup to the registration of \<open>handleResize\<close>. An
  exception is returned together with the state reached when it was thrown.
\<close>

definition effect :: "(nat \<Rightarrow> real) \<Rightarrow> app \<Rightarrow> error option \<times> app" where
  "effect rnd a =
     (case mountRef a of
        None \<Rightarrow> (Some TypeError, a)
      | Some children \<Rightarrow>
          (let i = length (effects a);
               k = draws a;
               stars = starPositions rnd k;
               planets = new_planets rnd (k + 3 * starCount);
               c = \<lparr>c_speeds = speeds a, c_isPaused = isPaused a,
                    c_scene = [Light, Sun, StarField] @ map (\<lambda>p. mesh_id (mesh p)) planets,
                    c_starPositions = stars, c_planets = planets\<rparr>;
               a1 = a\<lparr>mountRef := Some (children @ [i]), effects := effects a @ [c],
                      draws := k + 3 * starCount + length planetsData\<rparr>;
               a2 = addEventListener ''mousemove'' i a1;
               a3 = animate i a2;
               a4 = addEventListener ''resize'' i a3
           in (None, a4)))"

text \<open>
  The cleanup function returned by run \<open>i\<close> of the effect. \<open>removeChild\<close> on a null
  \<open>mountRef.current\<close> is a TypeError, and on a node that is not a child a NotFoundError.
\<close>

definition cleanup :: "nat \<Rightarrow> app \<Rightarrow> error option \<times> app" where
  "cleanup i a =
     (let a1 = removeEventListener ''resize'' i a;
          a2 = removeEventListener ''mousemove'' i a1
      in case mountRef a2 of
           None \<Rightarrow> (Some TypeError, a2)
         | Some children \<Rightarrow>
             if i \<in> set children then (None, a2\<lparr>mountRef := Some (remove1 i children)\<rparr>)
             else (Some NotFoundError, a2))"

text \<open>
  What React does with \<open>useEffect(..., [speeds, isPaused])\<close> after a render: on the first
  render it runs the effect; afterwards it compares the two dependencies with those of
  the last run (object identity for \<open>speeds\<close>) and, when one differs, runs the last
  run's cleanup and then the effect again.
\<close>

definition commit :: "(nat \<Rightarrow> real) \<Rightarrow> app \<Rightarrow> error option \<times> app" where
  "commit rnd a =
     (case effects a of
        [] \<Rightarrow> effect rnd a
      | _ # _ \<Rightarrow>
          (let i = length (effects a) - 1;
               c = effects a ! i
           in if c_speeds c = speeds a \<and> c_isPaused c = isPaused a then (None, a)
              else (case cleanup i a of
                      (None, a1) \<Rightarrow> effect rnd a1
                    | (Some e, a1) \<Rightarrow> (Some e, a1))))"

text \<open>
  Mounting the component, and unmounting it. At an unmount React (17 and later) first
  resets the refs of the elements it removes, so that \<open>mountRef.current\<close> is null, and
  then runs the last run's cleanup.
\<close>

definition mount :: "(nat \<Rightarrow> real) \<Rightarrow> error option \<times> app" where
  "mount rnd = commit rnd init_app"

definition unmount :: "app \<Rightarrow> error option \<times> app" where
  "unmount a = cleanup (length (effects a) - 1) (a\<lparr>mountRef := None\<rparr>)"

text \<open>
  \<open>handleSpeedChange\<close>: the updater builds a new object from the spread of the previous
  one and stores its address in the state. \<open>parseFloat\<close> is the host's function.
\<close>

definition handleSpeedChange :: "(string \<Rightarrow> num) \<Rightarrow> string \<Rightarrow> string \<Rightarrow> app \<Rightarrow> app" where
  "handleSpeedChange parseFloat n val a =
     (let prev = heap a ! speeds a
      in a\<lparr>heap := heap a @ [prev(n \<mapsto> parseFloat val)], speeds := length (heap a)\<rparr>)"

text \<open>The click handler of the pause button: \<open>setIsPaused((paused) => !paused)\<close>.\<close>

definition togglePause :: "app \<Rightarrow> app" where
  "togglePause a = a\<lparr>isPaused := \<not> isPaused a\<rparr>"

text \<open>One animation frame of the host: every callback requested since the last frame runs once.\<close>

fun run_callbacks :: "nat list \<Rightarrow> app \<Rightarrow> app" where
  "run_callbacks [] a = a"
| "run_callbacks (i # rest) a = run_callbacks rest (animate i a)"

definition frame :: "app \<Rightarrow> app" where
  "frame a = run_callbacks (raf a) (a\<lparr>raf := []\<rparr>)"

text \<open>
  The events the mounted component reacts to: a slider's change (planet name and the
  input's value), a click on the pause button, a display frame. A state change is
  followed by a render and by React's handling of the effect.
\<close>

datatype event = Change string string | Click | AnimationFrame

fun step :: "(string \<Rightarrow> num) \<Rightarrow> (nat \<Rightarrow> real) \<Rightarrow> event \<Rightarrow> app \<Rightarrow> error option \<times> app" where
  "step pf rnd (Change n val) a = commit rnd (handleSpeedChange pf n val a)"
| "step pf rnd Click a = commit rnd (togglePause a)"
| "step pf rnd AnimationFrame a = (None, frame a)"

fun run :: "(string \<Rightarrow> num) \<Rightarrow> (nat \<Rightarrow> real) \<Rightarrow> event list \<Rightarrow> app \<Rightarrow> error option \<times> app" where
  "run pf rnd [] a = (None, a)"
| "run pf rnd (e # es) a =
     (case step pf rnd e a of
        (None, a1) \<Rightarrow> run pf rnd es a1
      | (Some err, a1) \<Rightarrow> (Some err, a1))"

section \<open>The control panel\<close>

record range_input =
  r_label :: string
  r_min :: string
  r_max :: string
  r_step :: string
  r_value :: "num option"

text \<open>The sliders of the returned JSX; \<open>None\<close> is a \<open>value\<close> of \<open>undefined\<close>.\<close>

definition render_controls :: "app \<Rightarrow> range_input list" where
  "render_controls a =
     map (\<lambda>p. \<lparr>r_label = name p, r_min = ''0.001'', r_max = ''0.05'', r_step = ''0.001'',
               r_value = (heap a ! speeds a) (name p)\<rparr>) planetsData"

text \<open>The text of the pause button, without its leading glyph.\<close>

definition pauseBtn :: "app \<Rightarrow> string" where
  "pauseBtn a = (if isPaused a then ''Resume'' else ''Pause'')"

section \<open>The states of the mounted component\<close>

text \<open>
  What holds of the state between two events, once the component is mounted: the
  container holds the canvas of the last run of the effect and nothing else, the window
  has that run's two listeners and no other, the state's \<open>speeds\<close> and \<open>isPaused\<close> are
  the ones the last run captured, and \<open>animate\<close> of every run made so far is requested
  for the next frame.
\<close>

definition mounted :: "app \<Rightarrow> bool" where
  "mounted a \<longleftrightarrow>
     effects a \<noteq> [] \<and>
     mountRef a = Some [length (effects a) - 1] \<and>
     listeners a = [(''mousemove'', length (effects a) - 1), (''resize'', length (effects a) - 1)] \<and>
     raf a = [0..<length (effects a)] \<and>
     c_speeds (last (effects a)) = speeds a \<and>
     c_isPaused (last (effects a)) = isPaused a \<and>
     speeds a < length (heap a)"

section \<open>Binary64 arithmetic\<close>

text \<open>
  The numbers of the source are IEEE 754 binary64 values, and each \<open>+\<close> and \<open>*\<close> gives the
  exact result rounded to the nearest such value, ties to the even significand.
  \<open>Finite m e\<close> is the number \<open>m * 2 ^ e\<close>. The operations give their results in one form
  only: \<open>m = 0\<close> and \<open>e = 0\<close>; or \<open>2 ^ 52 \<le> |m| < 2 ^ 53\<close> and \<open>-1074 \<le> e \<le> 971\<close>; or
  \<open>|m| < 2 ^ 52\<close> and \<open>e = -1074\<close> (subnormal). So two results are the same number exactly
  when they are the same value of the type. The two zeros of the format are one value
  here (the orbit code never divides), and the NaNs are one value.
\<close>

datatype double = Finite int int | PosInf | NegInf | DNaN

text \<open>The number of binary digits of a natural number.\<close>

fun bitlen :: "nat \<Rightarrow> nat" where
  "bitlen n = (if n = 0 then 0 else Suc (bitlen (n div 2)))"

declare bitlen.simps [simp del]

text \<open>\<open>m / 2 ^ k\<close> rounded to the nearest integer, a tie to the even one.\<close>

definition rne :: "int \<Rightarrow> nat \<Rightarrow> int" where
  "rne m k =
     (let q = m div 2 ^ k; r = m mod 2 ^ k
      in if 2 * r < 2 ^ k then q
         else if 2 ^ k < 2 * r then q + 1
         else if even q then q else q + 1)"

text \<open>
  The binary64 value nearest to the exact number \<open>m * 2 ^ e\<close>: the significand keeps 53
  binary digits, fewer where the exponent would fall below -1074; a result of
  magnitude \<open>2 ^ 1024\<close> or more is an infinity.
\<close>

definition round64 :: "int \<Rightarrow> int \<Rightarrow> double" where
  "round64 m e =
     (if m = 0 then Finite 0 0
      else
        let b = int (bitlen (nat \<bar>m\<bar>));
            t = max (e + b - 53) (- 1074);
            q = (if t \<le> e then m * 2 ^ nat (e - t) else rne m (nat (t - e)));
            q' = (if \<bar>q\<bar> = 2 ^ 53 then q div 2 else q);
            t' = (if \<bar>q\<bar> = 2 ^ 53 then t + 1 else t)
        in if q' = 0 then Finite 0 0
           else if 971 < t' then (if 0 < m then PosInf else NegInf)
           else Finite q' t')"

text \<open>The source's \<open>+\<close> on numbers.\<close>

fun dadd :: "double \<Rightarrow> double \<Rightarrow> double" where
  "dadd (Finite m1 e1) (Finite m2 e2) =
     (let e = min e1 e2 in round64 (m1 * 2 ^ nat (e1 - e) + m2 * 2 ^ nat (e2 - e)) e)"
| "dadd DNaN _ = DNaN"
| "dadd _ DNaN = DNaN"
| "dadd PosInf NegInf = DNaN"
| "dadd NegInf PosInf = DNaN"
| "dadd PosInf _ = PosInf"
| "dadd _ PosInf = PosInf"
| "dadd NegInf _ = NegInf"
| "dadd _ NegInf = NegInf"

text \<open>The source's \<open>*\<close> on numbers.\<close>

fun dmul :: "double \<Rightarrow> double \<Rightarrow> double" where
  "dmul (Finite m1 e1) (Finite m2 e2) = round64 (m1 * m2) (e1 + e2)"
| "dmul DNaN _ = DNaN"
| "dmul _ DNaN = DNaN"
| "dmul PosInf (Finite m e) = (if m = 0 then DNaN else if 0 < m then PosInf else NegInf)"
| "dmul NegInf (Finite m e) = (if m = 0 then DNaN else if 0 < m then NegInf else PosInf)"
| "dmul (Finite m e) PosInf = (if m = 0 then DNaN else if 0 < m then PosInf else NegInf)"
| "dmul (Finite m e) NegInf = (if m = 0 then DNaN else if 0 < m then NegInf else PosInf)"
| "dmul PosInf PosInf = PosInf"
| "dmul NegInf NegInf = PosInf"
| "dmul PosInf NegInf = NegInf"
| "dmul NegInf PosInf = NegInf"

text \<open>The real number a finite value stands for.\<close>

definition valof :: "double \<Rightarrow> real option" where
  "valof d =
     (case d of
        Finite m e \<Rightarrow>
          Some (if 0 \<le> e then of_int m * 2 ^ nat e else of_int m / 2 ^ nat (- e))
      | _ \<Rightarrow> None)"

text \<open>\<open>Math.PI\<close>, 3.141592653589793, and the literal \<open>2\<close>.\<close>

definition Math_PI :: double where
  "Math_PI = Finite 7074237752028440 (- 51)"

definition two64 :: double where
  "two64 = Finite 4503599627370496 (- 51)"

section \<open>The orbit update on binary64\<close>

text \<open>
  The state \<open>animate\<close> reads and writes for one planet, with binary64 fields:
  \<open>mesh.position\<close>, and of \<open>data\<close> the fields \<open>name\<close>, \<open>distance\<close> and \<open>angle\<close>.
\<close>

record position64 =
  x64 :: double
  y64 :: double
  z64 :: double

record planet64 =
  position64 :: position64
  name64 :: string
  distance64 :: double
  angle64 :: double

text \<open>
  The planet the \<open>planetsData.map\<close> callback builds from a descriptor's name and
  distance, for the outcome \<open>r\<close> of its call of \<open>Math.random\<close>: the mesh at the origin,
  the angle \<open>r * Math.PI * 2\<close>.
\<close>

definition new_planet64 :: "double \<Rightarrow> string \<Rightarrow> double \<Rightarrow> planet64" where
  "new_planet64 r n d =
     \<lparr>position64 = \<lparr>x64 = Finite 0 0, y64 = Finite 0 0, z64 = Finite 0 0\<rparr>,
      name64 = n, distance64 = d, angle64 = dmul (dmul r Math_PI) two64\<rparr>"

text \<open>\<open>speeds[data.name]\<close>; a missing key reads \<open>undefined\<close>, which \<open>+=\<close> turns into NaN.\<close>

definition lookup_speed64 :: "(string \<rightharpoonup> double) \<Rightarrow> string \<Rightarrow> double" where
  "lookup_speed64 sp n = (case sp n of Some v \<Rightarrow> v | None \<Rightarrow> DNaN)"

text \<open>
  The body of the \<open>planets.forEach\<close> callback. \<open>Math.cos\<close> and \<open>Math.sin\<close> are the
  parameters \<open>cosf\<close> and \<open>sinf\<close>: the language leaves their results to the implementation.
\<close>

definition animate_planet64 ::
  "(double \<Rightarrow> double) \<Rightarrow> (double \<Rightarrow> double) \<Rightarrow> (string \<rightharpoonup> double) \<Rightarrow> planet64 \<Rightarrow> planet64" where
  "animate_planet64 cosf sinf sp p =
     (let a = dadd (angle64 p) (lookup_speed64 sp (name64 p))
      in p\<lparr>angle64 := a,
           position64 := (position64 p)
             \<lparr>x64 := dmul (cosf a) (distance64 p), z64 := dmul (sinf a) (distance64 p)\<rparr>\<rparr>)"

text \<open>The planet part of one call of \<open>animate\<close>, for the captured \<open>isPaused\<close> and \<open>speeds\<close>.\<close>

definition animate_planets64 ::
  "(double \<Rightarrow> double) \<Rightarrow> (double \<Rightarrow> double) \<Rightarrow> bool \<Rightarrow> (string \<rightharpoonup> double)
     \<Rightarrow> planet64 list \<Rightarrow> planet64 list" where
  "animate_planets64 cosf sinf paused sp planets =
     (if \<not> paused then map (animate_planet64 cosf sinf sp) planets else planets)"

text \<open>Mercury's literals: its speed \<open>0.04\<close> and its distance \<open>4\<close>.\<close>

definition Mercury_speed64 :: double where
  "Mercury_speed64 = Finite 5764607523034235 (- 57)"

definition Mercury_distance64 :: double where
  "Mercury_distance64 = Finite 4503599627370496 (- 50)"

section \<open>Properties of the orbit update\<close>

lemma animate_planets_length [simp]:
  "length (animate_planets b sp planets) = length planets"
  by (simp add: animate_planets_def)

lemma animate_planets_pow_length [simp]:
  "length ((animate_planets b sp ^^ n) planets) = length planets"
  by (induction n) simp_all

lemma animate_planet_angle:
  assumes "sp (name (data p)) = Some (Num s)" and "angle (data p) = Num a"
  shows "angle (data (animate_planet sp p)) = Num (a + s)"
  using assms by (simp add: animate_planet_def lookup_speed_def Let_def)

lemma animate_planet_static [simp]:
  "name (data (animate_planet sp p)) = name (data p)"
  "distance (data (animate_planet sp p)) = distance (data p)"
  "pos_y (position (mesh (animate_planet sp p))) = pos_y (position (mesh p))"
  "mesh_id (mesh (animate_planet sp p)) = mesh_id (mesh p)"
  by (simp_all add: animate_planet_def Let_def)

lemma animate_planet_position:
  assumes "angle (data (animate_planet sp p)) = Num b"
  shows "pos_x (position (mesh (animate_planet sp p))) = Num (cos b * distance (data p))"
    and "pos_z (position (mesh (animate_planet sp p))) = Num (sin b * distance (data p))"
  using assms by (simp_all add: animate_planet_def Let_def)

lemma animate_planets_nth:
  "i < length planets \<Longrightarrow>
     animate_planets False sp planets ! i = animate_planet sp (planets ! i)"
  by (simp add: animate_planets_def)

lemma animate_pow_nth:
  assumes "i < length planets"
  shows "(animate_planets False sp ^^ n) planets ! i
           = (animate_planet sp ^^ n) (planets ! i)"
  using assms
proof (induction n)
  case 0
  show ?case by simp
next
  case (Suc n)
  then show ?case by (simp add: animate_planets_nth)
qed

lemma animate_planet_pow_static [simp]:
  "name (data ((animate_planet sp ^^ n) p)) = name (data p)"
  "distance (data ((animate_planet sp ^^ n) p)) = distance (data p)"
  "pos_y (position (mesh ((animate_planet sp ^^ n) p))) = pos_y (position (mesh p))"
  by (induction n) simp_all

lemma animate_planet_pow_angle:
  assumes "sp (name (data p)) = Some (Num s)" and "angle (data p) = Num a"
  shows "angle (data ((animate_planet sp ^^ n) p)) = Num (a + real n * s)"
proof (induction n)
  case 0
  show ?case using assms(2) by simp
next
  case (Suc n)
  have "sp (name (data ((animate_planet sp ^^ n) p))) = Some (Num s)"
    using assms(1) by simp
  then have "angle (data (animate_planet sp ((animate_planet sp ^^ n) p)))
               = Num (a + real n * s + s)"
    using Suc by (rule animate_planet_angle)
  then show ?case by (simp add: algebra_simps)
qed


section \<open>Properties of the orbit update on binary64\<close>

lemmas round64_eval = round64_def rne_def bitlen.simps Let_def

text \<open>
  The rounding step: \<open>rne m k\<close> is an integer nearest to \<open>m / 2 ^ k\<close>, the even one at a
  tie, and \<open>m / 2 ^ k\<close> itself when that is an integer. Addition and multiplication are
  commutative.
\<close>

lemma rne_nearest: "\<bar>real_of_int (rne m k) - real_of_int m / 2 ^ k\<bar> \<le> 1 / 2"
proof -
  define q where "q = m div 2 ^ k"
  define r where "r = m mod 2 ^ k"
  define x where "x = real_of_int r / 2 ^ k"
  have m: "m = q * 2 ^ k + r"
    unfolding q_def r_def by (rule div_mult_mod_eq [symmetric])
  have r: "0 \<le> r" "r < 2 ^ k"
    by (simp_all add: r_def)
  have d: "real_of_int m / 2 ^ k = real_of_int q + x"
    unfolding m x_def by (simp add: field_simps)
  have x0: "0 \<le> x" and x1: "x < 1"
    using r by (simp_all add: x_def divide_less_eq)
  consider "2 * r < 2 ^ k" | "2 ^ k < 2 * r" | "2 * r = 2 ^ k" by linarith
  then show ?thesis
  proof cases
    case 1
    then have "real_of_int (2 * r) < real_of_int (2 ^ k)" by (simp only: of_int_less_iff)
    then have "x < 1 / 2" by (simp add: x_def field_simps)
    moreover have "rne m k = q" using 1 by (simp add: rne_def q_def r_def Let_def)
    ultimately show ?thesis using x0 unfolding d by simp
  next
    case 2
    then have "real_of_int (2 ^ k) < real_of_int (2 * r)" by (simp only: of_int_less_iff)
    then have "1 / 2 < x" by (simp add: x_def field_simps)
    moreover have "rne m k = q + 1" using 2 by (simp add: rne_def q_def r_def Let_def)
    ultimately show ?thesis using x1 unfolding d by simp
  next
    case 3
    then have "real_of_int (2 * r) = real_of_int (2 ^ k)" by (simp only: of_int_eq_iff)
    then have h: "x = 1 / 2" by (simp add: x_def field_simps)
    have "rne m k = q \<or> rne m k = q + 1" using 3 by (simp add: rne_def q_def r_def Let_def)
    then show ?thesis unfolding d h by auto
  qed
qed

lemma rne_tie_even: "2 * (m mod 2 ^ k) = 2 ^ k \<Longrightarrow> even (rne m k)"
  by (simp add: rne_def Let_def)

lemma rne_exact: "m mod 2 ^ k = 0 \<Longrightarrow> rne m k * 2 ^ k = m"
  by (auto simp: rne_def Let_def)

lemma dadd_commute: "dadd a b = dadd b a"
  by (cases a; cases b) (simp_all add: Let_def add.commute min.commute)

lemma dmul_commute: "dmul a b = dmul b a"
  by (cases a; cases b) (simp_all add: mult.commute add.commute)

text \<open>
  Some values of the operations: \<open>0.1 + 0.2\<close> is 0.30000000000000004; the largest finite
  number added to itself overflows; half of the smallest positive number is a tie that
  goes to 0, and half of its triple a tie that goes to its double; \<open>0 * Math.PI * 2\<close> is
  0 and \<open>0.5 * Math.PI * 2\<close> is \<open>Math.PI\<close>.
\<close>

lemma dadd_tenth_fifth:
  "dadd (Finite 7205759403792794 (- 56)) (Finite 7205759403792794 (- 55))
     = Finite 5404319552844596 (- 54)"
  by (simp add: Let_def) (simp add: round64_eval)

lemma dadd_overflow:
  "dadd (Finite 9007199254740991 971) (Finite 9007199254740991 971) = PosInf"
  by (simp add: Let_def) (simp add: round64_eval)

lemma dmul_underflow:
  "dmul (Finite 1 (- 1074)) (Finite 4503599627370496 (- 53)) = Finite 0 0"
  "dmul (Finite 3 (- 1074)) (Finite 4503599627370496 (- 53)) = Finite 2 (- 1074)"
  by (simp_all add: round64_eval)

lemma dmul_zero_PI: "dmul (dmul (Finite 0 0) Math_PI) two64 = Finite 0 0"
  by (simp add: Math_PI_def two64_def round64_def)

lemma dmul_half_PI:
  "dmul (dmul (Finite 4503599627370496 (- 53)) Math_PI) two64 = Math_PI"
  by (simp add: Math_PI_def two64_def round64_eval)

lemma Mercury_speed64_nearest:
  "valof Mercury_speed64 = Some (5764607523034235 / 2 ^ 57)"
  "\<bar>5764607523034235 / 2 ^ 57 - (0.04 :: real)\<bar> < 1 / 2 ^ 58"
  "(2 :: int) ^ 52 \<le> 5764607523034235" "(5764607523034235 :: int) < 2 ^ 53"
  by (simp_all add: valof_def Mercury_speed64_def)

lemma Mercury_distance64_exact: "valof Mercury_distance64 = Some 4"
  by (simp add: valof_def Mercury_distance64_def)

lemma animate_planet64_fields [simp]:
  "name64 (animate_planet64 cosf sinf sp p) = name64 p"
  "distance64 (animate_planet64 cosf sinf sp p) = distance64 p"
  "y64 (position64 (animate_planet64 cosf sinf sp p)) = y64 (position64 p)"
  "angle64 (animate_planet64 cosf sinf sp p) = dadd (angle64 p) (lookup_speed64 sp (name64 p))"
  "x64 (position64 (animate_planet64 cosf sinf sp p))
     = dmul (cosf (angle64 (animate_planet64 cosf sinf sp p))) (distance64 p)"
  "z64 (position64 (animate_planet64 cosf sinf sp p))
     = dmul (sinf (angle64 (animate_planet64 cosf sinf sp p))) (distance64 p)"
  by (simp_all add: animate_planet64_def Let_def)

lemma animate_planets64_length [simp]:
  "length (animate_planets64 cosf sinf b sp planets) = length planets"
  by (simp add: animate_planets64_def)

lemma animate_planets64_pow_length [simp]:
  "length ((animate_planets64 cosf sinf b sp ^^ n) planets) = length planets"
  by (induction n) simp_all

lemma animate_planets64_nth:
  "j < length planets \<Longrightarrow>
     animate_planets64 cosf sinf False sp planets ! j = animate_planet64 cosf sinf sp (planets ! j)"
  by (simp add: animate_planets64_def)

lemma animate64_pow_nth:
  assumes "j < length planets"
  shows "(animate_planets64 cosf sinf False sp ^^ n) planets ! j
           = (animate_planet64 cosf sinf sp ^^ n) (planets ! j)"
  using assms by (induction n) (simp_all add: animate_planets64_nth)

lemma animate_planet64_pow_static [simp]:
  "name64 ((animate_planet64 cosf sinf sp ^^ n) p) = name64 p"
  "distance64 ((animate_planet64 cosf sinf sp ^^ n) p) = distance64 p"
  "y64 (position64 ((animate_planet64 cosf sinf sp ^^ n) p)) = y64 (position64 p)"
  by (induction n) simp_all

lemma animate_planet64_pow_angle:
  assumes "sp (name64 p) = Some s"
  shows "angle64 ((animate_planet64 cosf sinf sp ^^ n) p) = ((\<lambda>a. dadd a s) ^^ n) (angle64 p)"
  using assms by (induction n) (simp_all add: lookup_speed64_def)

lemma animate_planet64_pow_position:
  assumes "0 < n"
  shows "x64 (position64 ((animate_planet64 cosf sinf sp ^^ n) p))
           = dmul (cosf (angle64 ((animate_planet64 cosf sinf sp ^^ n) p))) (distance64 p)"
    and "z64 (position64 ((animate_planet64 cosf sinf sp ^^ n) p))
           = dmul (sinf (angle64 ((animate_planet64 cosf sinf sp ^^ n) p))) (distance64 p)"
proof -
  from assms obtain m where n: "n = Suc m" by (cases n) auto
  show "x64 (position64 ((animate_planet64 cosf sinf sp ^^ n) p))
           = dmul (cosf (angle64 ((animate_planet64 cosf sinf sp ^^ n) p))) (distance64 p)"
    unfolding n by (simp del: animate_planet64_fields(4))
  show "z64 (position64 ((animate_planet64 cosf sinf sp ^^ n) p))
           = dmul (sinf (angle64 ((animate_planet64 cosf sinf sp ^^ n) p))) (distance64 p)"
    unfolding n by (simp del: animate_planet64_fields(4))
qed

text \<open>Six additions of Mercury's speed, starting from 0.\<close>

lemma six_additions:
  "dadd (Finite 0 0) Mercury_speed64 = Finite 5764607523034235 (- 57)"
  "dadd (Finite 5764607523034235 (- 57)) Mercury_speed64 = Finite 5764607523034235 (- 56)"
  "dadd (Finite 5764607523034235 (- 56)) Mercury_speed64 = Finite 8646911284551352 (- 56)"
  "dadd (Finite 8646911284551352 (- 56)) Mercury_speed64 = Finite 5764607523034235 (- 55)"
  "dadd (Finite 5764607523034235 (- 55)) Mercury_speed64 = Finite 7205759403792794 (- 55)"
  "dadd (Finite 7205759403792794 (- 55)) Mercury_speed64 = Finite 8646911284551353 (- 55)"
  by (simp_all add: Mercury_speed64_def Let_def) (simp_all add: round64_eval)

lemma six_additions_pow:
  "((\<lambda>a. dadd a Mercury_speed64) ^^ 6) (Finite 0 0) = Finite 8646911284551353 (- 55)"
  by (simp add: eval_nat_numeral six_additions)

lemma six_times_speed:
  "dmul (Finite 6755399441055744 (- 50)) Mercury_speed64 = Finite 8646911284551352 (- 55)"
  "dadd (Finite 0 0) (Finite 8646911284551352 (- 55)) = Finite 8646911284551352 (- 55)"
  by (simp_all add: Mercury_speed64_def Let_def) (simp_all add: round64_eval)

section \<open>Properties of the animation loop\<close>


lemma animate_fields [simp]:
  "raf (animate i a) = raf a @ [i]"
  "heap (animate i a) = heap a"
  "speeds (animate i a) = speeds a"
  "isPaused (animate i a) = isPaused a"
  "mountRef (animate i a) = mountRef a"
  "tooltipRef (animate i a) = tooltipRef a"
  "listeners (animate i a) = listeners a"
  "draws (animate i a) = draws a"
  "length (effects (animate i a)) = length (effects a)"
  by (simp_all add: animate_def requestAnimationFrame_def Let_def)

lemma animate_effects_other:
  "i \<noteq> j \<Longrightarrow> effects (animate j a) ! i = effects a ! i"
  by (simp add: animate_def requestAnimationFrame_def Let_def)

lemma animate_effects_same:
  "j < length (effects a) \<Longrightarrow>
     effects (animate j a) ! j =
       (effects a ! j)\<lparr>c_planets :=
          animate_planets (c_isPaused (effects a ! j)) (heap a ! c_speeds (effects a ! j))
            (c_planets (effects a ! j))\<rparr>"
  by (simp add: animate_def requestAnimationFrame_def Let_def)

lemma run_callbacks_fields [simp]:
  "raf (run_callbacks js a) = raf a @ js"
  "heap (run_callbacks js a) = heap a"
  "speeds (run_callbacks js a) = speeds a"
  "isPaused (run_callbacks js a) = isPaused a"
  "mountRef (run_callbacks js a) = mountRef a"
  "tooltipRef (run_callbacks js a) = tooltipRef a"
  "listeners (run_callbacks js a) = listeners a"
  "draws (run_callbacks js a) = draws a"
  "length (effects (run_callbacks js a)) = length (effects a)"
  by (induction js arbitrary: a) simp_all

lemma run_callbacks_other:
  "i \<notin> set js \<Longrightarrow> effects (run_callbacks js a) ! i = effects a ! i"
  by (induction js arbitrary: a) (auto simp: animate_effects_other)

lemma run_callbacks_same:
  assumes "distinct js" and "i \<in> set js" and "i < length (effects a)"
  shows "effects (run_callbacks js a) ! i =
       (effects a ! i)\<lparr>c_planets :=
          animate_planets (c_isPaused (effects a ! i)) (heap a ! c_speeds (effects a ! i))
            (c_planets (effects a ! i))\<rparr>"
  using assms
proof (induction js arbitrary: a)
  case Nil
  then show ?case by simp
next
  case (Cons j js)
  show ?case
  proof (cases "i = j")
    case True
    with Cons.prems have "i \<notin> set js" by simp
    then show ?thesis
      using True Cons.prems(3) by (simp add: run_callbacks_other animate_effects_same)
  next
    case False
    with Cons.prems have "i \<in> set js" "distinct js" by simp_all
    with Cons.IH [of "animate j a"] Cons.prems(3) False show ?thesis
      by (simp add: animate_effects_other)
  qed
qed

lemma frame_fields [simp]:
  "raf (frame a) = raf a"
  "heap (frame a) = heap a"
  "speeds (frame a) = speeds a"
  "isPaused (frame a) = isPaused a"
  "mountRef (frame a) = mountRef a"
  "tooltipRef (frame a) = tooltipRef a"
  "listeners (frame a) = listeners a"
  "draws (frame a) = draws a"
  "length (effects (frame a)) = length (effects a)"
  by (simp_all add: frame_def)

lemma frame_other:
  "i \<notin> set (raf a) \<Longrightarrow> effects (frame a) ! i = effects a ! i"
  by (simp add: frame_def run_callbacks_other)

lemma frame_same:
  assumes "distinct (raf a)" and "i \<in> set (raf a)" and "i < length (effects a)"
  shows "effects (frame a) ! i =
       (effects a ! i)\<lparr>c_planets :=
          animate_planets (c_isPaused (effects a ! i)) (heap a ! c_speeds (effects a ! i))
            (c_planets (effects a ! i))\<rparr>"
  using assms run_callbacks_same [of "raf a" i "a\<lparr>raf := []\<rparr>"] by (simp add: frame_def)

lemma frames_fields [simp]:
  "raf ((frame ^^ n) a) = raf a"
  "heap ((frame ^^ n) a) = heap a"
  "speeds ((frame ^^ n) a) = speeds a"
  "isPaused ((frame ^^ n) a) = isPaused a"
  "mountRef ((frame ^^ n) a) = mountRef a"
  "tooltipRef ((frame ^^ n) a) = tooltipRef a"
  "listeners ((frame ^^ n) a) = listeners a"
  "draws ((frame ^^ n) a) = draws a"
  "length (effects ((frame ^^ n) a)) = length (effects a)"
  by (induction n) simp_all

lemma frames_same:
  assumes "distinct (raf a)" and "i \<in> set (raf a)" and "i < length (effects a)"
  shows "effects ((frame ^^ n) a) ! i =
       (effects a ! i)\<lparr>c_planets :=
          (animate_planets (c_isPaused (effects a ! i)) (heap a ! c_speeds (effects a ! i)) ^^ n)
            (c_planets (effects a ! i))\<rparr>"
proof (induction n)
  case 0
  show ?case by simp
next
  case (Suc n)
  have "effects (frame ((frame ^^ n) a)) ! i =
       (effects ((frame ^^ n) a) ! i)\<lparr>c_planets :=
          animate_planets (c_isPaused (effects ((frame ^^ n) a) ! i))
            (heap ((frame ^^ n) a) ! c_speeds (effects ((frame ^^ n) a) ! i))
            (c_planets (effects ((frame ^^ n) a) ! i))\<rparr>"
    using assms by (intro frame_same) simp_all
  then show ?case by (simp add: Suc)
qed

lemma frames_other:
  "i \<notin> set (raf a) \<Longrightarrow> effects ((frame ^^ n) a) ! i = effects a ! i"
  by (induction n) (simp_all add: frame_other)


section \<open>Properties of the effect and its cleanup\<close>

lemma addEventListener_fields [simp]:
  "raf (addEventListener ty f a) = raf a"
  "heap (addEventListener ty f a) = heap a"
  "speeds (addEventListener ty f a) = speeds a"
  "isPaused (addEventListener ty f a) = isPaused a"
  "mountRef (addEventListener ty f a) = mountRef a"
  "tooltipRef (addEventListener ty f a) = tooltipRef a"
  "effects (addEventListener ty f a) = effects a"
  "draws (addEventListener ty f a) = draws a"
  by (simp_all add: addEventListener_def)

lemma removeEventListener_fields [simp]:
  "raf (removeEventListener ty f a) = raf a"
  "heap (removeEventListener ty f a) = heap a"
  "speeds (removeEventListener ty f a) = speeds a"
  "isPaused (removeEventListener ty f a) = isPaused a"
  "mountRef (removeEventListener ty f a) = mountRef a"
  "tooltipRef (removeEventListener ty f a) = tooltipRef a"
  "effects (removeEventListener ty f a) = effects a"
  "draws (removeEventListener ty f a) = draws a"
  "listeners (removeEventListener ty f a) = removeAll (ty, f) (listeners a)"
  by (simp_all add: removeEventListener_def)

lemma effect_fields:
  assumes "mountRef a = Some ch"
  shows "fst (effect rnd a) = None"
    and "raf (snd (effect rnd a)) = raf a @ [length (effects a)]"
    and "heap (snd (effect rnd a)) = heap a"
    and "speeds (snd (effect rnd a)) = speeds a"
    and "isPaused (snd (effect rnd a)) = isPaused a"
    and "mountRef (snd (effect rnd a)) = Some (ch @ [length (effects a)])"
    and "tooltipRef (snd (effect rnd a)) = tooltipRef a"
    and "draws (snd (effect rnd a)) = draws a + 3 * starCount + length planetsData"
    and "listeners (snd (effect rnd a)) =
           listeners (addEventListener ''resize'' (length (effects a))
             (addEventListener ''mousemove'' (length (effects a)) a))"
    and "effects (snd (effect rnd a)) = effects a @
           [\<lparr>c_speeds = speeds a, c_isPaused = isPaused a,
             c_scene = [Light, Sun, StarField] @
                map (\<lambda>p. mesh_id (mesh p)) (new_planets rnd (draws a + 3 * starCount)),
             c_starPositions = starPositions rnd (draws a),
             c_planets = animate_planets (isPaused a) (heap a ! speeds a)
                (new_planets rnd (draws a + 3 * starCount))\<rparr>]"
  using assms
  by (simp_all add: effect_def Let_def animate_def requestAnimationFrame_def addEventListener_def)

section \<open>Mounting\<close>

lemma new_planets_y:
  "p \<in> set (new_planets rnd k) \<Longrightarrow> position (mesh p) = \<lparr>pos_x = Num 0, pos_y = Num 0, pos_z = Num 0\<rparr>"
  by (auto simp: new_planets_def new_planet_def new_mesh_def)

lemma mount_eq: "mount rnd = effect rnd init_app"
  by (simp add: mount_def commit_def init_app_def)

lemma init_app_fields [simp]:
  "heap init_app = [initial_speeds]" "speeds init_app = 0" "isPaused init_app = False"
  "mountRef init_app = Some []" "listeners init_app = []" "raf init_app = []"
  "effects init_app = []" "draws init_app = 0"
  by (simp_all add: init_app_def)

lemmas mount_fields = effect_fields [of init_app "[]", folded mount_eq, simplified]

lemma initial_speeds_Mercury: "initial_speeds ''Mercury'' = Some (Num 0.04)"
  by (simp add: initial_speeds_def fromEntries_def planetsData_def)

section \<open>Running the effect again\<close>

lemma cleanup_fields:
  assumes "mountRef a = Some ch" and "i \<in> set ch"
  shows "fst (cleanup i a) = None"
    and "mountRef (snd (cleanup i a)) = Some (remove1 i ch)"
    and "listeners (snd (cleanup i a)) =
           removeAll (''mousemove'', i) (removeAll (''resize'', i) (listeners a))"
  using assms by (simp_all add: cleanup_def Let_def)

lemma cleanup_keeps [simp]:
  "raf (snd (cleanup i a)) = raf a"
  "heap (snd (cleanup i a)) = heap a"
  "speeds (snd (cleanup i a)) = speeds a"
  "isPaused (snd (cleanup i a)) = isPaused a"
  "tooltipRef (snd (cleanup i a)) = tooltipRef a"
  "effects (snd (cleanup i a)) = effects a"
  "draws (snd (cleanup i a)) = draws a"
  by (simp_all add: cleanup_def Let_def split: option.splits)

lemma commit_rebuild:
  assumes "effects a \<noteq> []"
    and "mountRef a = Some [length (effects a) - 1]"
    and "\<not> (c_speeds (last (effects a)) = speeds a \<and> c_isPaused (last (effects a)) = isPaused a)"
  shows "commit rnd a = effect rnd (snd (cleanup (length (effects a) - 1) a))"
proof -
  let ?l = "length (effects a) - 1"
  obtain c cs where cs: "effects a = c # cs"
    using assms(1) by (cases "effects a") auto
  have last: "effects a ! ?l = last (effects a)"
    using assms(1) by (simp add: last_conv_nth)
  have "fst (cleanup ?l a) = None"
    using cleanup_fields(1) [of a "[?l]" ?l] assms(2) by simp
  then obtain b where b: "cleanup ?l a = (None, b)"
    by (metis prod.collapse)
  have "commit rnd a =
      (if c_speeds (effects a ! ?l) = speeds a \<and> c_isPaused (effects a ! ?l) = isPaused a
       then (None, a)
       else (case cleanup ?l a of (None, a1) \<Rightarrow> effect rnd a1 | (Some e, a1) \<Rightarrow> (Some e, a1)))"
    by (simp add: commit_def cs Let_def)
  also have "\<dots> = effect rnd b"
    using assms(3) last b by auto
  finally show ?thesis using b by simp
qed

lemma rebuild_fields:
  assumes "effects a \<noteq> []"
    and "mountRef a = Some [length (effects a) - 1]"
    and "listeners a = [(''mousemove'', length (effects a) - 1), (''resize'', length (effects a) - 1)]"
    and "\<not> (c_speeds (last (effects a)) = speeds a \<and> c_isPaused (last (effects a)) = isPaused a)"
  shows "fst (commit rnd a) = None"
    and "raf (snd (commit rnd a)) = raf a @ [length (effects a)]"
    and "heap (snd (commit rnd a)) = heap a"
    and "speeds (snd (commit rnd a)) = speeds a"
    and "isPaused (snd (commit rnd a)) = isPaused a"
    and "mountRef (snd (commit rnd a)) = Some [length (effects a)]"
    and "tooltipRef (snd (commit rnd a)) = tooltipRef a"
    and "draws (snd (commit rnd a)) = draws a + 3 * starCount + length planetsData"
    and "listeners (snd (commit rnd a)) =
           [(''mousemove'', length (effects a)), (''resize'', length (effects a))]"
    and "effects (snd (commit rnd a)) = effects a @
           [\<lparr>c_speeds = speeds a, c_isPaused = isPaused a,
             c_scene = [Light, Sun, StarField] @
                map (\<lambda>p. mesh_id (mesh p)) (new_planets rnd (draws a + 3 * starCount)),
             c_starPositions = starPositions rnd (draws a),
             c_planets = animate_planets (isPaused a) (heap a ! speeds a)
                (new_planets rnd (draws a + 3 * starCount))\<rparr>]"
proof -
  let ?l = "length (effects a) - 1"
  let ?b = "snd (cleanup ?l a)"
  have c: "commit rnd a = effect rnd ?b"
    using assms(1,2,4) by (rule commit_rebuild)
  have m: "mountRef ?b = Some []"
    using cleanup_fields(2) [of a "[?l]" ?l] assms(2) by simp
  have l: "listeners ?b = []"
    using cleanup_fields(3) [of a "[?l]" ?l] assms(2,3) by simp
  note f = effect_fields [OF m, of rnd, folded c]
  show "fst (commit rnd a) = None" using f(1) .
  show "raf (snd (commit rnd a)) = raf a @ [length (effects a)]" using f(2) by simp
  show "heap (snd (commit rnd a)) = heap a" using f(3) by simp
  show "speeds (snd (commit rnd a)) = speeds a" using f(4) by simp
  show "isPaused (snd (commit rnd a)) = isPaused a" using f(5) by simp
  show "mountRef (snd (commit rnd a)) = Some [length (effects a)]" using f(6) by simp
  show "tooltipRef (snd (commit rnd a)) = tooltipRef a" using f(7) by simp
  show "draws (snd (commit rnd a)) = draws a + 3 * starCount + length planetsData"
    using f(8) by simp
  show "listeners (snd (commit rnd a)) =
           [(''mousemove'', length (effects a)), (''resize'', length (effects a))]"
    using f(9) l by (simp add: addEventListener_def)
  show "effects (snd (commit rnd a)) = effects a @
           [\<lparr>c_speeds = speeds a, c_isPaused = isPaused a,
             c_scene = [Light, Sun, StarField] @
                map (\<lambda>p. mesh_id (mesh p)) (new_planets rnd (draws a + 3 * starCount)),
             c_starPositions = starPositions rnd (draws a),
             c_planets = animate_planets (isPaused a) (heap a ! speeds a)
                (new_planets rnd (draws a + 3 * starCount))\<rparr>]"
    using f(10) by simp
qed

lemma togglePause_fields [simp]:
  "isPaused (togglePause a) = (\<not> isPaused a)"
  "raf (togglePause a) = raf a" "heap (togglePause a) = heap a"
  "speeds (togglePause a) = speeds a" "mountRef (togglePause a) = mountRef a"
  "tooltipRef (togglePause a) = tooltipRef a" "listeners (togglePause a) = listeners a"
  "effects (togglePause a) = effects a" "draws (togglePause a) = draws a"
  by (simp_all add: togglePause_def)

lemma handleSpeedChange_fields [simp]:
  "heap (handleSpeedChange pf n v a) = heap a @ [(heap a ! speeds a)(n \<mapsto> pf v)]"
  "speeds (handleSpeedChange pf n v a) = length (heap a)"
  "isPaused (handleSpeedChange pf n v a) = isPaused a"
  "raf (handleSpeedChange pf n v a) = raf a"
  "mountRef (handleSpeedChange pf n v a) = mountRef a"
  "tooltipRef (handleSpeedChange pf n v a) = tooltipRef a"
  "listeners (handleSpeedChange pf n v a) = listeners a"
  "effects (handleSpeedChange pf n v a) = effects a"
  "draws (handleSpeedChange pf n v a) = draws a"
  by (simp_all add: handleSpeedChange_def Let_def)

lemma click_fields:
  assumes "mounted a"
  shows "fst (step pf rnd Click a) = None"
    and "raf (snd (step pf rnd Click a)) = raf a @ [length (effects a)]"
    and "heap (snd (step pf rnd Click a)) = heap a"
    and "speeds (snd (step pf rnd Click a)) = speeds a"
    and "isPaused (snd (step pf rnd Click a)) = (\<not> isPaused a)"
    and "mountRef (snd (step pf rnd Click a)) = Some [length (effects a)]"
    and "tooltipRef (snd (step pf rnd Click a)) = tooltipRef a"
    and "draws (snd (step pf rnd Click a)) = draws a + 3 * starCount + length planetsData"
    and "listeners (snd (step pf rnd Click a)) =
           [(''mousemove'', length (effects a)), (''resize'', length (effects a))]"
    and "effects (snd (step pf rnd Click a)) = effects a @
           [\<lparr>c_speeds = speeds a, c_isPaused = (\<not> isPaused a),
             c_scene = [Light, Sun, StarField] @
                map (\<lambda>p. mesh_id (mesh p)) (new_planets rnd (draws a + 3 * starCount)),
             c_starPositions = starPositions rnd (draws a),
             c_planets = animate_planets (\<not> isPaused a) (heap a ! speeds a)
                (new_planets rnd (draws a + 3 * starCount))\<rparr>]"
  using rebuild_fields [of "togglePause a" rnd] assms
  by (simp_all add: mounted_def)

lemma change_fields:
  assumes "mounted a"
  shows "fst (step pf rnd (Change n v) a) = None"
    and "raf (snd (step pf rnd (Change n v) a)) = raf a @ [length (effects a)]"
    and "heap (snd (step pf rnd (Change n v) a)) = heap a @ [(heap a ! speeds a)(n \<mapsto> pf v)]"
    and "speeds (snd (step pf rnd (Change n v) a)) = length (heap a)"
    and "isPaused (snd (step pf rnd (Change n v) a)) = isPaused a"
    and "mountRef (snd (step pf rnd (Change n v) a)) = Some [length (effects a)]"
    and "tooltipRef (snd (step pf rnd (Change n v) a)) = tooltipRef a"
    and "draws (snd (step pf rnd (Change n v) a)) = draws a + 3 * starCount + length planetsData"
    and "listeners (snd (step pf rnd (Change n v) a)) =
           [(''mousemove'', length (effects a)), (''resize'', length (effects a))]"
    and "effects (snd (step pf rnd (Change n v) a)) = effects a @
           [\<lparr>c_speeds = length (heap a), c_isPaused = isPaused a,
             c_scene = [Light, Sun, StarField] @
                map (\<lambda>p. mesh_id (mesh p)) (new_planets rnd (draws a + 3 * starCount)),
             c_starPositions = starPositions rnd (draws a),
             c_planets = animate_planets (isPaused a) ((heap a ! speeds a)(n \<mapsto> pf v))
                (new_planets rnd (draws a + 3 * starCount))\<rparr>]"
  using rebuild_fields [of "handleSpeedChange pf n v a" rnd] assms
  by (simp_all add: mounted_def)

section \<open>The states of the mounted component are preserved\<close>

lemma mounted_mount: "fst (mount rnd) = None" "mounted (snd (mount rnd))"
  by (simp_all add: mounted_def mount_fields addEventListener_def init_app_def)

lemma mounted_click: "mounted a \<Longrightarrow> mounted (snd (step pf rnd Click a))"
  using click_fields [of a pf rnd]
  by (simp add: mounted_def del: step.simps)

lemma mounted_change: "mounted a \<Longrightarrow> mounted (snd (step pf rnd (Change n v) a))"
  using change_fields [of a pf rnd n v]
  by (simp add: mounted_def del: step.simps)

lemma frame_last:
  assumes "mounted a"
  shows "last (effects (frame a)) = (last (effects a))\<lparr>c_planets :=
          animate_planets (isPaused a) (heap a ! speeds a) (c_planets (last (effects a)))\<rparr>"
proof -
  let ?l = "length (effects a) - 1"
  have "effects (frame a) ! ?l =
       (effects a ! ?l)\<lparr>c_planets :=
          animate_planets (c_isPaused (effects a ! ?l)) (heap a ! c_speeds (effects a ! ?l))
            (c_planets (effects a ! ?l))\<rparr>"
    using assms by (intro frame_same) (simp_all add: mounted_def)
  moreover have "effects a ! ?l = last (effects a)"
    using assms by (simp add: mounted_def last_conv_nth)
  moreover have "effects (frame a) ! ?l = last (effects (frame a))"
    using assms frame_fields(9) [of a]
    by (metis last_conv_nth length_0_conv mounted_def)
  ultimately show ?thesis using assms by (simp add: mounted_def)
qed

lemma mounted_frame: "mounted a \<Longrightarrow> mounted (frame a)"
  using frame_last [of a] by (simp add: mounted_def) (metis frame_fields(9) length_0_conv)

lemma mounted_step: "mounted a \<Longrightarrow> fst (step pf rnd e a) = None \<and> mounted (snd (step pf rnd e a))"
  by (cases e) (simp_all add: mounted_change mounted_click change_fields(1) click_fields(1) mounted_frame del: step.simps, simp_all add: mounted_frame)

lemma mounted_run: "mounted a \<Longrightarrow> fst (run pf rnd es a) = None \<and> mounted (snd (run pf rnd es a))"
proof (induction es arbitrary: a)
  case Nil
  then show ?case by simp
next
  case (Cons e es)
  from mounted_step [OF Cons.prems, of pf rnd e]
  obtain a1 where "step pf rnd e a = (None, a1)" "mounted a1"
    by (metis prod.collapse)
  with Cons.IH [of a1] show ?case by simp
qed

lemma cleanup_detached:
  assumes "mountRef a = None"
  shows "fst (cleanup i a) = Some TypeError"
    and "listeners (snd (cleanup i a)) =
           removeAll (''mousemove'', i) (removeAll (''resize'', i) (listeners a))"
  using assms by (simp_all add: cleanup_def Let_def)

section \<open>The planet meshes of a scene\<close>

lemma new_planets_length [simp]: "length (new_planets rnd k) = 8"
  by (simp add: new_planets_def planetsData_def)

lemma upt_8: "[0..<8] = [0, 1, 2, 3, 4, 5, 6, 7 :: nat]"
  by code_simp

lemma new_planets_ids:
  "map (\<lambda>p. mesh_id (mesh p)) (new_planets rnd k) = map PlanetMesh [0..<8]"
  by (simp add: new_planets_def planetsData_def new_planet_def new_mesh_def upt_8)

lemma animate_planets_ids [simp]:
  "map (\<lambda>p. mesh_id (mesh p)) (animate_planets b sp ps) = map (\<lambda>p. mesh_id (mesh p)) ps"
  by (simp add: animate_planets_def comp_def)

lemma find_by_id:
  assumes "map (\<lambda>p. mesh_id (mesh p)) planets = map PlanetMesh [0..<length planets]"
    and "i < length planets"
  shows "find (\<lambda>p. mesh_id (mesh p) = PlanetMesh i) planets = Some (planets ! i)"
proof -
  have ids: "mesh_id (mesh (planets ! j)) = PlanetMesh j" if "j < length planets" for j
  proof -
    have "map (\<lambda>p. mesh_id (mesh p)) planets ! j = map PlanetMesh [0..<length planets] ! j"
      using assms(1) by simp
    then show ?thesis using that by simp
  qed
  have "\<exists>k. k < length planets \<and> mesh_id (mesh (planets ! k)) = PlanetMesh i
        \<and> (\<forall>j<k. mesh_id (mesh (planets ! j)) \<noteq> PlanetMesh i)"
    using ids assms(2) by (intro exI [of _ i]) auto
  then show ?thesis
    using ids assms(2) by (auto simp: find_Some_iff)
qed

section \<open>Mercury, from mounting through two clicks\<close>

lemma starCount_3 [simp]: "3 * starCount = 30000"
  by (simp add: starCount_def)

lemma new_planets_Mercury:
  "new_planets rnd k ! 0 =
     \<lparr>mesh = \<lparr>mesh_id = PlanetMesh 0, position = \<lparr>pos_x = Num 0, pos_y = Num 0, pos_z = Num 0\<rparr>\<rparr>,
      data = \<lparr>name = ''Mercury'', color = 11184810, size_f = 0.3, distance = 4, speed = 0.04,
              angle = Num (rnd k * pi * 2)\<rparr>\<rparr>"
  by (simp add: new_planets_def planetsData_def new_planet_def new_mesh_def)

lemma animate_Mercury:
  assumes "sp ''Mercury'' = Some (Num s)"
  shows "animate_planets False sp (new_planets rnd k) ! 0 =
     \<lparr>mesh = \<lparr>mesh_id = PlanetMesh 0,
              position = \<lparr>pos_x = Num (cos (rnd k * pi * 2 + s) * 4), pos_y = Num 0,
                          pos_z = Num (sin (rnd k * pi * 2 + s) * 4)\<rparr>\<rparr>,
      data = \<lparr>name = ''Mercury'', color = 11184810, size_f = 0.3, distance = 4, speed = 0.04,
              angle = Num (rnd k * pi * 2 + s)\<rparr>\<rparr>"
  using assms
  by (simp add: animate_planets_nth new_planets_Mercury animate_planet_def lookup_speed_def)

lemma mount_Mercury:
  "c_planets (last (effects (snd (mount rnd)))) ! 0 =
     \<lparr>mesh = \<lparr>mesh_id = PlanetMesh 0,
              position = \<lparr>pos_x = Num (cos (rnd 30000 * pi * 2 + 0.04) * 4), pos_y = Num 0,
                          pos_z = Num (sin (rnd 30000 * pi * 2 + 0.04) * 4)\<rparr>\<rparr>,
      data = \<lparr>name = ''Mercury'', color = 11184810, size_f = 0.3, distance = 4, speed = 0.04,
              angle = Num (rnd 30000 * pi * 2 + 0.04)\<rparr>\<rparr>"
  using animate_Mercury [of initial_speeds "0.04" rnd 30000] initial_speeds_Mercury
  by (simp add: mount_fields)

lemma two_clicks_Mercury:
  fixes pf rnd
  defines "a0 \<equiv> frame (snd (mount rnd))"
  defines "a1 \<equiv> snd (step pf rnd Click a0)"
  defines "a2 \<equiv> snd (step pf rnd Click a1)"
  shows "fst (step pf rnd Click a0) = None
    \<and> fst (step pf rnd Click a1) = None
    \<and> isPaused a0 = False \<and> isPaused a1 = True \<and> isPaused a2 = False
    \<and> length (effects a0) = 1 \<and> length (effects a1) = 2 \<and> length (effects a2) = 3
    \<and> c_planets (last (effects a0)) ! 0 =
     \<lparr>mesh = \<lparr>mesh_id = PlanetMesh 0,
              position = \<lparr>pos_x = Num (cos (rnd 30000 * pi * 2 + 0.08) * 4), pos_y = Num 0,
                          pos_z = Num (sin (rnd 30000 * pi * 2 + 0.08) * 4)\<rparr>\<rparr>,
      data = \<lparr>name = ''Mercury'', color = 11184810, size_f = 0.3, distance = 4, speed = 0.04,
              angle = Num (rnd 30000 * pi * 2 + 0.08)\<rparr>\<rparr>
    \<and> c_planets (last (effects a1)) ! 0 =
     \<lparr>mesh = \<lparr>mesh_id = PlanetMesh 0,
              position = \<lparr>pos_x = Num 0, pos_y = Num 0, pos_z = Num 0\<rparr>\<rparr>,
      data = \<lparr>name = ''Mercury'', color = 11184810, size_f = 0.3, distance = 4, speed = 0.04,
              angle = Num (rnd 60008 * pi * 2)\<rparr>\<rparr>
    \<and> c_planets (last (effects (frame a1))) ! 0 = c_planets (last (effects a1)) ! 0
    \<and> c_planets (last (effects a2)) ! 0 =
     \<lparr>mesh = \<lparr>mesh_id = PlanetMesh 0,
              position = \<lparr>pos_x = Num (cos (rnd 90016 * pi * 2 + 0.04) * 4), pos_y = Num 0,
                          pos_z = Num (sin (rnd 90016 * pi * 2 + 0.04) * 4)\<rparr>\<rparr>,
      data = \<lparr>name = ''Mercury'', color = 11184810, size_f = 0.3, distance = 4, speed = 0.04,
              angle = Num (rnd 90016 * pi * 2 + 0.04)\<rparr>\<rparr>"
proof -
  let ?m = "snd (mount rnd)"
  have m: "mounted ?m" by (rule mounted_mount)
  have m0: "mounted a0" unfolding a0_def using m by (rule mounted_frame)
  have m1: "mounted a1" unfolding a1_def using m0 by (rule mounted_click)
  note c0 = click_fields [OF m0, of pf rnd, folded a1_def]
  note c1 = click_fields [OF m1, of pf rnd, folded a2_def]
  have h0: "heap a0 = [initial_speeds]" "speeds a0 = 0" "draws a0 = 30008"
    by (simp_all add: a0_def mount_fields planetsData_def)
  have s1: "fst (step pf rnd Click a0) = None" by (rule c0(1))
  have s2: "fst (step pf rnd Click a1) = None" by (rule c1(1))
  have p0: "isPaused a0 = False" by (simp add: a0_def mount_fields)
  have p1: "isPaused a1 = True" using c0(5) p0 by simp
  have s3: "isPaused a2 = False" using c1(5) p1 by simp
  have l0: "length (effects a0) = 1" by (simp add: a0_def mount_fields)
  have l1: "length (effects a1) = 2" using l0 by (simp add: c0(10))
  have s4: "length (effects a2) = 3" using l1 by (simp add: c1(10))
  have "c_planets (last (effects a0)) =
          animate_planets False initial_speeds (c_planets (last (effects ?m)))"
    unfolding a0_def by (simp add: frame_last [OF m] mount_fields)
  then have "c_planets (last (effects a0)) ! 0 =
          animate_planet initial_speeds (c_planets (last (effects ?m)) ! 0)"
    by (simp add: animate_planets_nth mount_fields)
  then have s7: "c_planets (last (effects a0)) ! 0 =
     \<lparr>mesh = \<lparr>mesh_id = PlanetMesh 0,
              position = \<lparr>pos_x = Num (cos (rnd 30000 * pi * 2 + 0.08) * 4), pos_y = Num 0,
                          pos_z = Num (sin (rnd 30000 * pi * 2 + 0.08) * 4)\<rparr>\<rparr>,
      data = \<lparr>name = ''Mercury'', color = 11184810, size_f = 0.3, distance = 4, speed = 0.04,
              angle = Num (rnd 30000 * pi * 2 + 0.08)\<rparr>\<rparr>"
    by (simp add: mount_Mercury animate_planet_def lookup_speed_def initial_speeds_Mercury
        add.commute)
  have q1: "c_planets (last (effects a1)) ! 0 =
     \<lparr>mesh = \<lparr>mesh_id = PlanetMesh 0,
              position = \<lparr>pos_x = Num 0, pos_y = Num 0, pos_z = Num 0\<rparr>\<rparr>,
      data = \<lparr>name = ''Mercury'', color = 11184810, size_f = 0.3, distance = 4, speed = 0.04,
              angle = Num (rnd 60008 * pi * 2)\<rparr>\<rparr>"
    using p0 by (simp add: c0(10) h0 animate_planets_def new_planets_Mercury)
  have s5: "c_planets (last (effects (frame a1))) ! 0 = c_planets (last (effects a1)) ! 0"
    using p1 by (simp add: frame_last [OF m1] animate_planets_def)
  have h1: "heap a1 = [initial_speeds]" "speeds a1 = 0" "draws a1 = 60016"
    using h0 by (simp_all add: c0 planetsData_def)
  have s6: "c_planets (last (effects a2)) ! 0 =
     \<lparr>mesh = \<lparr>mesh_id = PlanetMesh 0,
              position = \<lparr>pos_x = Num (cos (rnd 90016 * pi * 2 + 0.04) * 4), pos_y = Num 0,
                          pos_z = Num (sin (rnd 90016 * pi * 2 + 0.04) * 4)\<rparr>\<rparr>,
      data = \<lparr>name = ''Mercury'', color = 11184810, size_f = 0.3, distance = 4, speed = 0.04,
              angle = Num (rnd 90016 * pi * 2 + 0.04)\<rparr>\<rparr>"
    using p1 animate_Mercury [of initial_speeds "0.04" rnd 90016] initial_speeds_Mercury
    by (simp add: c1(10) h1)
  show ?thesis
    using p0 p1 l0 l1 q1 s1 s2 s3 s4 s5 s6 s7 by (intro conjI)
qed

lemma new_planets_nth:
  assumes "j < 8"
  shows "new_planets rnd k ! j = new_planet rnd k j (planetsData ! j)"
proof -
  have "length planetsData = 8" by (simp add: planetsData_def)
  then show ?thesis using assms by (simp add: new_planets_def nth_enumerate_eq)
qed

lemma cos_step_pos: "0 < cos (1 / 25 :: real)"
proof -
  have "(1 / 25 :: real) < pi / 2" using pi_ge_two by simp
  then show ?thesis by (intro cos_gt_zero) simp_all
qed

section \<open>No planet leaves the plane of the orbits\<close>

lemma animate_planets_y:
  assumes "p \<in> set (animate_planets b sp ps)"
  shows "\<exists>q \<in> set ps. pos_y (position (mesh p)) = pos_y (position (mesh q))"
  using assms by (auto simp: animate_planets_def split: if_splits)

lemma animate_y:
  assumes "\<forall>c \<in> set (effects a). \<forall>p \<in> set (c_planets c). pos_y (position (mesh p)) = Num 0"
  shows "\<forall>c \<in> set (effects (animate i a)). \<forall>p \<in> set (c_planets c). pos_y (position (mesh p)) = Num 0"
proof (cases "i < length (effects a)")
  case True
  let ?c = "effects a ! i"
  let ?c' = "?c\<lparr>c_planets := animate_planets (c_isPaused ?c) (heap a ! c_speeds ?c) (c_planets ?c)\<rparr>"
  have e: "effects (animate i a) = (effects a)[i := ?c']"
    by (simp add: animate_def requestAnimationFrame_def Let_def)
  have c: "?c \<in> set (effects a)" using True by simp
  have "\<forall>p \<in> set (c_planets ?c'). pos_y (position (mesh p)) = Num 0"
  proof
    fix p assume "p \<in> set (c_planets ?c')"
    then have "p \<in> set (animate_planets (c_isPaused ?c) (heap a ! c_speeds ?c) (c_planets ?c))"
      by simp
    from animate_planets_y [OF this] assms c
    show "pos_y (position (mesh p)) = Num 0" by auto
  qed
  moreover have "set (effects (animate i a)) \<subseteq> insert ?c' (set (effects a))"
    unfolding e by (rule set_update_subset_insert)
  ultimately show ?thesis using assms by blast
next
  case False
  then have "effects (animate i a) = effects a"
    by (simp add: animate_def requestAnimationFrame_def Let_def list_update_beyond)
  then show ?thesis using assms by simp
qed

lemma run_callbacks_y:
  assumes "\<forall>c \<in> set (effects a). \<forall>p \<in> set (c_planets c). pos_y (position (mesh p)) = Num 0"
  shows "\<forall>c \<in> set (effects (run_callbacks js a)). \<forall>p \<in> set (c_planets c).
           pos_y (position (mesh p)) = Num 0"
  using assms
proof (induction js arbitrary: a)
  case Nil
  then show ?case by simp
next
  case (Cons j js)
  from Cons.IH [OF animate_y [OF Cons.prems]] show ?case by simp
qed

lemma frame_y:
  assumes "\<forall>c \<in> set (effects a). \<forall>p \<in> set (c_planets c). pos_y (position (mesh p)) = Num 0"
  shows "\<forall>c \<in> set (effects (frame a)). \<forall>p \<in> set (c_planets c). pos_y (position (mesh p)) = Num 0"
  unfolding frame_def using assms by (intro run_callbacks_y) simp

lemma new_closure_y:
  "\<forall>p \<in> set (animate_planets b sp (new_planets rnd k)). pos_y (position (mesh p)) = Num 0"
proof
  fix p assume "p \<in> set (animate_planets b sp (new_planets rnd k))"
  from animate_planets_y [OF this] show "pos_y (position (mesh p)) = Num 0"
    by (auto simp: new_planets_y)
qed

lemma step_y:
  assumes "mounted a"
    and "\<forall>c \<in> set (effects a). \<forall>p \<in> set (c_planets c). pos_y (position (mesh p)) = Num 0"
  shows "\<forall>c \<in> set (effects (snd (step pf rnd e a))). \<forall>p \<in> set (c_planets c).
           pos_y (position (mesh p)) = Num 0"
proof (cases e)
  case (Change n v)
  show ?thesis
    unfolding Change using assms(2) new_closure_y
    by (simp add: change_fields(10) [OF assms(1)] del: step.simps)
next
  case Click
  show ?thesis
    unfolding Click using assms(2) new_closure_y
    by (simp add: click_fields(10) [OF assms(1)] del: step.simps)
next
  case AnimationFrame
  show ?thesis
    unfolding AnimationFrame using frame_y [OF assms(2)] by simp
qed

lemma run_y:
  assumes "mounted a"
    and "\<forall>c \<in> set (effects a). \<forall>p \<in> set (c_planets c). pos_y (position (mesh p)) = Num 0"
  shows "\<forall>c \<in> set (effects (snd (run pf rnd es a))). \<forall>p \<in> set (c_planets c).
           pos_y (position (mesh p)) = Num 0"
  using assms
proof (induction es arbitrary: a)
  case Nil
  then show ?case by simp
next
  case (Cons e es)
  from mounted_step [OF Cons.prems(1), of pf rnd e]
  obtain a1 where a1: "step pf rnd e a = (None, a1)" "mounted a1"
    by (metis prod.collapse)
  have "\<forall>c \<in> set (effects a1). \<forall>p \<in> set (c_planets c). pos_y (position (mesh p)) = Num 0"
    using step_y [OF Cons.prems, of pf rnd e] a1(1) by simp
  from Cons.IH [OF a1(2) this] show ?case
    using a1(1) by simp
qed

lemma mount_y:
  "\<forall>c \<in> set (effects (snd (mount rnd))). \<forall>p \<in> set (c_planets c). pos_y (position (mesh p)) = Num 0"
  using new_closure_y by (simp add: mount_fields)

lemma reachable_y:
  "\<forall>c \<in> set (effects (snd (run pf rnd es (snd (mount rnd))))). \<forall>p \<in> set (c_planets c).
           pos_y (position (mesh p)) = Num 0"
  using mounted_mount(2) mount_y by (rule run_y)

section \<open>The scene on display while paused\<close>

lemma mounted_frames: "mounted a \<Longrightarrow> mounted ((frame ^^ n) a)"
  by (induction n) (simp_all add: mounted_frame)

lemma paused_current:
  assumes "mounted a" and "isPaused a"
  shows "last (effects ((frame ^^ n) a)) = last (effects a)"
proof (induction n)
  case 0
  show ?case by simp
next
  case (Suc n)
  have m: "mounted ((frame ^^ n) a)" using assms(1) by (rule mounted_frames)
  have "animate_planets (isPaused ((frame ^^ n) a)) sp ps = ps" for sp ps
    using assms(2) by (simp add: animate_planets_def)
  then show ?case
    using frame_last [OF m] Suc by simp
qed

section \<open>The claims\<close>

text \<open>
  C1, as the code has it. In every frame run while the captured pause flag is false
  each planet gets \<open>angle := angle + speeds[name]\<close>, one binary64 addition, then
  \<open>position.x := cos(angle) * distance\<close> and \<open>position.z := sin(angle) * distance\<close> for the
  new angle, and nothing else of it changes. Hence after \<open>n\<close> such frames, with the speed
  \<open>s\<close> of the captured mapping, the angle is the result of \<open>n\<close> successive additions of
  \<open>s\<close> to the initial angle, each rounded; once a frame has run (\<open>0 < n\<close>) the mesh is at
  \<open>x = cos(angle) * distance\<close>, \<open>z = sin(angle) * distance\<close> for that angle; and \<open>y\<close> is never
  written. A mesh is created at the origin, and in every state the component reaches
  from mounting by slider changes, clicks and frames every planet of every scene has
  \<open>y = 0\<close>.
\<close>

theorem unpaused_frames_add_speed:
  assumes "j < length planets" and "p = planets ! j" and "sp (name64 p) = Some s"
  shows "animate_planets64 cosf sinf False sp planets ! j =
           p\<lparr>angle64 := dadd (angle64 p) s,
             position64 := (position64 p)
               \<lparr>x64 := dmul (cosf (dadd (angle64 p) s)) (distance64 p),
                z64 := dmul (sinf (dadd (angle64 p) s)) (distance64 p)\<rparr>\<rparr>
       \<and> (let q = (animate_planets64 cosf sinf False sp ^^ n) planets ! j
          in angle64 q = ((\<lambda>a. dadd a s) ^^ n) (angle64 p)
           \<and> (0 < n \<longrightarrow>
                x64 (position64 q) = dmul (cosf (angle64 q)) (distance64 p)
              \<and> z64 (position64 q) = dmul (sinf (angle64 q)) (distance64 p))
           \<and> y64 (position64 q) = y64 (position64 p)
           \<and> name64 q = name64 p \<and> distance64 q = distance64 p)
       \<and> (\<forall>r nm d. position64 (new_planet64 r nm d)
                      = \<lparr>x64 = Finite 0 0, y64 = Finite 0 0, z64 = Finite 0 0\<rparr>)
       \<and> (\<forall>pf rnd es. \<forall>c0 \<in> set (effects (snd (run pf rnd es (snd (mount rnd))))).
            \<forall>p0 \<in> set (c_planets c0). pos_y (position (mesh p0)) = Num 0)"
proof (intro conjI)
  show "animate_planets64 cosf sinf False sp planets ! j =
           p\<lparr>angle64 := dadd (angle64 p) s,
             position64 := (position64 p)
               \<lparr>x64 := dmul (cosf (dadd (angle64 p) s)) (distance64 p),
                z64 := dmul (sinf (dadd (angle64 p) s)) (distance64 p)\<rparr>\<rparr>"
    using assms
    by (simp add: animate_planets64_nth animate_planet64_def lookup_speed64_def Let_def)
  have q: "(animate_planets64 cosf sinf False sp ^^ n) planets ! j
             = (animate_planet64 cosf sinf sp ^^ n) p"
    using assms(1,2) by (simp add: animate64_pow_nth)
  have a: "angle64 ((animate_planet64 cosf sinf sp ^^ n) p) = ((\<lambda>a. dadd a s) ^^ n) (angle64 p)"
    using assms(3) by (rule animate_planet64_pow_angle)
  show "let q = (animate_planets64 cosf sinf False sp ^^ n) planets ! j
          in angle64 q = ((\<lambda>a. dadd a s) ^^ n) (angle64 p)
           \<and> (0 < n \<longrightarrow>
                x64 (position64 q) = dmul (cosf (angle64 q)) (distance64 p)
              \<and> z64 (position64 q) = dmul (sinf (angle64 q)) (distance64 p))
           \<and> y64 (position64 q) = y64 (position64 p)
           \<and> name64 q = name64 p \<and> distance64 q = distance64 p"
    unfolding q Let_def using a animate_planet64_pow_position [of n cosf sinf sp p]
    by simp
  show "\<forall>r nm d. position64 (new_planet64 r nm d)
                      = \<lparr>x64 = Finite 0 0, y64 = Finite 0 0, z64 = Finite 0 0\<rparr>"
    by (simp add: new_planet64_def)
  show "\<forall>pf rnd es. \<forall>c0 \<in> set (effects (snd (run pf rnd es (snd (mount rnd))))).
            \<forall>p0 \<in> set (c_planets c0). pos_y (position (mesh p0)) = Num 0"
    using reachable_y by blast
qed

theorem unpaused_frames_add_speed_witness:
  "angle64 ((animate_planets64 (\<lambda>_. Finite 0 0) (\<lambda>_. Finite 0 0) False
               [''Mercury'' \<mapsto> Mercury_speed64] ^^ 3)
             [new_planet64 (Finite 0 0) ''Mercury'' Mercury_distance64] ! 0)
     = Finite 8646911284551352 (- 56)"
proof -
  let ?p = "new_planet64 (Finite 0 0) ''Mercury'' Mercury_distance64"
  have n: "name64 ?p = ''Mercury''" and a: "angle64 ?p = Finite 0 0"
    by (simp_all add: new_planet64_def dmul_zero_PI)
  have "((\<lambda>a. dadd a Mercury_speed64) ^^ 3) (Finite 0 0) = Finite 8646911284551352 (- 56)"
    by (simp add: eval_nat_numeral six_additions)
  then show ?thesis
    using unpaused_frames_add_speed [of 0 "[?p]" ?p "[''Mercury'' \<mapsto> Mercury_speed64]"
        Mercury_speed64 "\<lambda>_. Finite 0 0" "\<lambda>_. Finite 0 0" 3] n a
    by (simp add: Let_def del: funpow.simps)
qed

text \<open>
  The claim as stated (the angle after \<open>N\<close> frames equals the initial angle plus \<open>N * s\<close>)
  fails: Mercury, built with the outcome 0 of \<open>Math.random\<close> and so at angle 0, is after
  six frames at 0.24000000000000002, which is neither the number \<open>0 + 6 * 0.04\<close> of the
  source's arithmetic, 0.24, nor the real number six times its speed. (The angle does
  not depend on \<open>Math.cos\<close> and \<open>Math.sin\<close>, here two constant functions.)
\<close>

theorem closed_form_counterexample:
  "let p0 = new_planet64 (Finite 0 0) ''Mercury'' Mercury_distance64;
       sp = [''Mercury'' \<mapsto> Mercury_speed64];
       p6 = (animate_planets64 (\<lambda>_. Finite 0 0) (\<lambda>_. Finite 0 0) False sp ^^ 6) [p0] ! 0
   in angle64 p0 = Finite 0 0
    \<and> angle64 p6 = Finite 8646911284551353 (- 55)
    \<and> dadd (angle64 p0) (dmul (Finite 6755399441055744 (- 50)) Mercury_speed64)
        = Finite 8646911284551352 (- 55)
    \<and> angle64 p6 \<noteq> dadd (angle64 p0) (dmul (Finite 6755399441055744 (- 50)) Mercury_speed64)
    \<and> valof (angle64 p6) = Some (8646911284551353 / 2 ^ 55)
    \<and> valof (angle64 p0) = Some 0
    \<and> valof Mercury_speed64 = Some (5764607523034235 / 2 ^ 57)
    \<and> (8646911284551353 / 2 ^ 55 :: real) \<noteq> 0 + 6 * (5764607523034235 / 2 ^ 57)"
proof -
  let ?p = "new_planet64 (Finite 0 0) ''Mercury'' Mercury_distance64"
  let ?sp = "[''Mercury'' \<mapsto> Mercury_speed64]"
  let ?f = "animate_planet64 (\<lambda>_. Finite 0 0) (\<lambda>_. Finite 0 0) ?sp"
  have a: "angle64 ?p = Finite 0 0"
    by (simp add: new_planet64_def dmul_zero_PI)
  have "(animate_planets64 (\<lambda>_. Finite 0 0) (\<lambda>_. Finite 0 0) False ?sp ^^ 6) [?p] ! 0
          = (?f ^^ 6) ?p"
    by (simp add: animate64_pow_nth del: funpow.simps)
  moreover have "angle64 ((?f ^^ 6) ?p) = ((\<lambda>a. dadd a Mercury_speed64) ^^ 6) (angle64 ?p)"
    by (rule animate_planet64_pow_angle) (simp add: new_planet64_def)
  ultimately have p6: "angle64 ((animate_planets64 (\<lambda>_. Finite 0 0) (\<lambda>_. Finite 0 0) False ?sp ^^ 6)
                                  [?p] ! 0) = Finite 8646911284551353 (- 55)"
    by (simp add: a six_additions_pow del: funpow.simps)
  have c: "dadd (Finite 0 0) (dmul (Finite 6755399441055744 (- 50)) Mercury_speed64)
             = Finite 8646911284551352 (- 55)"
    by (simp only: six_times_speed)
  have v6: "valof (Finite 8646911284551353 (- 55)) = Some (8646911284551353 / 2 ^ 55)"
    and v0: "valof (Finite 0 0) = Some 0"
    by (simp_all add: valof_def)
  have ne: "(8646911284551353 / 2 ^ 55 :: real) \<noteq> 0 + 6 * (5764607523034235 / 2 ^ 57)"
    by simp
  have d: "Finite 8646911284551353 (- 55)
             \<noteq> dadd (Finite 0 0) (dmul (Finite 6755399441055744 (- 50)) Mercury_speed64)"
    unfolding c by simp
  show ?thesis
    unfolding Let_def p6 a
    by (intro conjI refl c d v6 v0 Mercury_speed64_nearest(1) ne)
qed

text \<open>
  C2. Any number of frames run by a loop whose captured pause flag is true leave that
  loop's closure as it was: the angle and the mesh position of each of its planets are
  unchanged. In particular, while the state's pause flag is true the scene on display,
  that of the last run of the effect, does not change. (The loops of earlier runs
  captured their own flag, and keep moving their own, abandoned planets.)
\<close>

theorem paused_frames_change_nothing:
  "(distinct (raf a) \<and> i \<in> set (raf a) \<and> i < length (effects a) \<and> c_isPaused (effects a ! i)
      \<longrightarrow> effects ((frame ^^ n) a) ! i = effects a ! i)
   \<and> (mounted a \<and> isPaused a \<longrightarrow> last (effects ((frame ^^ n) a)) = last (effects a))"
proof (intro conjI impI)
  assume r: "distinct (raf a) \<and> i \<in> set (raf a) \<and> i < length (effects a)
               \<and> c_isPaused (effects a ! i)"
  have "(animate_planets True sp ^^ n) ps = ps" for sp ps
    by (induction n) (simp_all add: animate_planets_def)
  with frames_same [of a i n] r show "effects ((frame ^^ n) a) ! i = effects a ! i"
    by simp
next
  assume "mounted a \<and> isPaused a"
  then show "last (effects ((frame ^^ n) a)) = last (effects a)"
    using paused_current by blast
qed

theorem paused_frames_change_nothing_witness:
  "mounted (snd (step (\<lambda>_. NaN) (\<lambda>_. 0) Click (snd (mount (\<lambda>_. 0)))))
   \<and> isPaused (snd (step (\<lambda>_. NaN) (\<lambda>_. 0) Click (snd (mount (\<lambda>_. 0)))))
   \<and> c_isPaused (effects (snd (step (\<lambda>_. NaN) (\<lambda>_. 0) Click (snd (mount (\<lambda>_. 0))))) ! 1)
   \<and> effects ((frame ^^ 3) (snd (step (\<lambda>_. NaN) (\<lambda>_. 0) Click (snd (mount (\<lambda>_. 0)))))) ! 1
     = effects (snd (step (\<lambda>_. NaN) (\<lambda>_. 0) Click (snd (mount (\<lambda>_. 0))))) ! 1
   \<and> last (effects ((frame ^^ 3) (snd (step (\<lambda>_. NaN) (\<lambda>_. 0) Click (snd (mount (\<lambda>_. 0)))))))
     = last (effects (snd (step (\<lambda>_. NaN) (\<lambda>_. 0) Click (snd (mount (\<lambda>_. 0))))))"
  using paused_frames_change_nothing
          [of "snd (step (\<lambda>_. NaN) (\<lambda>_. 0) Click (snd (mount (\<lambda>_. 0))))" 1 3]
    mounted_click [OF mounted_mount(2), of "\<lambda>_. NaN" "\<lambda>_. 0" "\<lambda>_. 0"]
  by (simp add: click_fields [OF mounted_mount(2)] mount_fields del: step.simps)

text \<open>
  C3 on the code: mount (every \<open>Math.random\<close> outcome 0), one frame, then two clicks on
  the pause button. The flag is back at its value, but each click changed a dependency
  of the effect, so the scene was built anew both times: Mercury, at angle 0.08 when
  the first click came, is at the new draw (0) while paused and at the next new draw
  plus one step (0.04) after the second click, in the third closure. Lemma
  \<open>two_clicks_Mercury\<close> has the same for any outcomes of \<open>Math.random\<close>.
\<close>

theorem double_toggle_restarts_orbit:
  "let a0 = frame (snd (mount (\<lambda>_. 0)));
       a1 = snd (step (\<lambda>_. NaN) (\<lambda>_. 0) Click a0);
       a2 = snd (step (\<lambda>_. NaN) (\<lambda>_. 0) Click a1)
   in isPaused a1 = (\<not> isPaused a0) \<and> isPaused a2 = isPaused a0
    \<and> pauseBtn a1 = ''Resume'' \<and> pauseBtn a2 = ''Pause''
    \<and> length (effects a0) = 1 \<and> length (effects a1) = 2 \<and> length (effects a2) = 3
    \<and> angle (data (c_planets (last (effects a0)) ! 0)) = Num 0.08
    \<and> angle (data (c_planets (last (effects a1)) ! 0)) = Num 0
    \<and> angle (data (c_planets (last (effects a2)) ! 0)) = Num 0.04"
  using two_clicks_Mercury [of "\<lambda>_. NaN" "\<lambda>_. 0"]
  by (simp add: Let_def pauseBtn_def del: step.simps)

text \<open>
  C4, as the code has it. The cleanup cancels nothing, and \<open>animate\<close> requests itself
  before anything else, whatever the state of the component. So for a loop that is
  requested when its cleanup is called, the request survives the cleanup, whether the
  cleanup returns or throws, and after any number \<open>n\<close> of later frames \<open>animate\<close> of the
  abandoned closure has run \<open>n\<close> times on its captured state and is requested again.
\<close>

theorem abandoned_loop_runs_every_frame:
  assumes "distinct (raf a)" and "i \<in> set (raf a)" and "i < length (effects a)"
  shows "raf (snd (cleanup i a)) = raf a
       \<and> raf ((frame ^^ n) (snd (cleanup i a))) = raf a
       \<and> effects ((frame ^^ n) (snd (cleanup i a))) ! i =
           (effects a ! i)\<lparr>c_planets :=
              (animate_planets (c_isPaused (effects a ! i)) (heap a ! c_speeds (effects a ! i)) ^^ n)
                (c_planets (effects a ! i))\<rparr>"
  using frames_same [of "snd (cleanup i a)" i n] assms by simp

theorem abandoned_loop_runs_every_frame_witness:
  "raf ((frame ^^ 3) (snd (cleanup 0 (snd (mount (\<lambda>_. 0)))))) = [0]
   \<and> angle (data (c_planets (effects ((frame ^^ 3) (snd (cleanup 0 (snd (mount (\<lambda>_. 0)))))) ! 0) ! 0))
       = Num 0.16"
proof -
  let ?a = "snd (mount (\<lambda>_. 0))"
  have r: "distinct (raf ?a)" "0 \<in> set (raf ?a)" "0 < length (effects ?a)"
    by (simp_all add: mount_fields)
  have sp: "(heap ?a ! c_speeds (effects ?a ! 0)) (name (data (c_planets (effects ?a ! 0) ! 0))) = Some (Num 0.04)"
    using mount_Mercury [of "\<lambda>_. 0"] by (simp add: mount_fields initial_speeds_Mercury)
  have an: "angle (data (c_planets (effects ?a ! 0) ! 0)) = Num 0.04"
    using mount_Mercury [of "\<lambda>_. 0"] by (simp add: mount_fields)
  have "angle (data ((animate_planets False (heap ?a ! c_speeds (effects ?a ! 0)) ^^ 3)
           (c_planets (effects ?a ! 0)) ! 0)) = Num (0.04 + real 3 * 0.04)"
    using animate_planet_pow_angle [of "heap ?a ! c_speeds (effects ?a ! 0)"
        "c_planets (effects ?a ! 0) ! 0" "0.04" "0.04" 3] sp an
    by (simp add: animate_pow_nth mount_fields del: funpow.simps)
  then show ?thesis
    using abandoned_loop_runs_every_frame [OF r, of 3]
    by (simp add: mount_fields del: funpow.simps)
qed

text \<open>
  The claim as stated (at most one more invocation after teardown, and no request after
  it) fails: after mounting and unmounting (the cleanup removes the listeners and then
  throws), the first, second and third frame each run \<open>animate\<close> of the abandoned
  closure, which moves Mercury on and is requested again.
\<close>

theorem abandoned_loop_counterexample:
  "fst (unmount (snd (mount (\<lambda>_. 0)))) = Some TypeError
   \<and> listeners (snd (unmount (snd (mount (\<lambda>_. 0))))) = []
   \<and> 0 \<in> set (raf (frame (snd (unmount (snd (mount (\<lambda>_. 0)))))))
   \<and> angle (data (c_planets (effects (frame (snd (unmount (snd (mount (\<lambda>_. 0)))))) ! 0) ! 0))
       = Num 0.08
   \<and> 0 \<in> set (raf (frame (frame (snd (unmount (snd (mount (\<lambda>_. 0))))))))
   \<and> angle (data (c_planets (effects (frame (frame (snd (unmount (snd (mount (\<lambda>_. 0))))))) ! 0) ! 0))
       = Num 0.12
   \<and> 0 \<in> set (raf (frame (frame (frame (snd (unmount (snd (mount (\<lambda>_. 0)))))))))
   \<and> angle (data (c_planets (effects (frame (frame (frame (snd (unmount (snd (mount (\<lambda>_. 0)))))))) ! 0) ! 0))
       = Num 0.16"
proof -
  let ?a = "snd (mount (\<lambda>_. 0))"
  let ?b = "snd (unmount ?a)"
  have u: "unmount ?a = cleanup 0 (?a\<lparr>mountRef := None\<rparr>)"
    by (simp add: unmount_def mount_fields)
  have err: "fst (unmount ?a) = Some TypeError"
    and ls: "listeners ?b = []"
    using cleanup_detached [of "?a\<lparr>mountRef := None\<rparr>" 0]
    by (simp_all add: u mount_fields addEventListener_def)
  have r: "distinct (raf ?b)" "0 \<in> set (raf ?b)" "0 < length (effects ?b)"
    by (simp_all add: u mount_fields)
  have c: "effects ?b ! 0 = effects ?a ! 0" "heap ?b = heap ?a"
    by (simp_all add: u)
  have sp: "(heap ?a ! c_speeds (effects ?a ! 0)) (name (data (c_planets (effects ?a ! 0) ! 0))) = Some (Num 0.04)"
    using mount_Mercury [of "\<lambda>_. 0"] by (simp add: mount_fields initial_speeds_Mercury)
  have an: "angle (data (c_planets (effects ?a ! 0) ! 0)) = Num 0.04"
    using mount_Mercury [of "\<lambda>_. 0"] by (simp add: mount_fields)
  have f: "angle (data (c_planets (effects ((frame ^^ n) ?b) ! 0) ! 0)) = Num (0.04 + real n * 0.04)" for n
    using frames_same [OF r, of n]
      animate_planet_pow_angle [of "heap ?a ! c_speeds (effects ?a ! 0)"
        "c_planets (effects ?a ! 0) ! 0" "0.04" "0.04" n] sp an
    by (simp add: c animate_pow_nth mount_fields del: funpow.simps)
  have q: "raf ((frame ^^ n) ?b) = [0]" for n
    by (simp add: u mount_fields)
  show ?thesis
    using err ls f [of 1] f [of 2] f [of 3] q [of 1] q [of 2] q [of 3]
    by (simp add: numeral_2_eq_2 numeral_3_eq_3)
qed

text \<open>
  C5. \<open>handleSpeedChange\<close> for a planet name \<open>n\<close> and a slider value \<open>v\<close> stores in the
  state a new mapping object in which the entry of \<open>n\<close> is the parsed value and every
  other entry equals the previous mapping's; the new object has a new address, and
  every object that existed before, the previous mapping among them, is unchanged.
\<close>

theorem handleSpeedChange_replaces_one_entry:
  assumes "speeds a < length (heap a)"
  shows "let a' = handleSpeedChange pf n v a;
             prev = heap a ! speeds a;
             new = heap a' ! speeds a'
         in new n = Some (pf v)
          \<and> (\<forall>m. m \<noteq> n \<longrightarrow> new m = prev m)
          \<and> speeds a' \<noteq> speeds a
          \<and> (\<forall>r < length (heap a). heap a' ! r = heap a ! r)"
  using assms by (simp add: Let_def nth_append)

theorem handleSpeedChange_replaces_one_entry_witness:
  "(heap (handleSpeedChange (\<lambda>_. Num 0.02) ''Earth'' ''0.02'' init_app)
      ! speeds (handleSpeedChange (\<lambda>_. Num 0.02) ''Earth'' ''0.02'' init_app)) ''Earth''
     = Some (Num 0.02)
   \<and> (heap (handleSpeedChange (\<lambda>_. Num 0.02) ''Earth'' ''0.02'' init_app)
      ! speeds (handleSpeedChange (\<lambda>_. Num 0.02) ''Earth'' ''0.02'' init_app)) ''Mercury''
     = Some (Num 0.04)
   \<and> (heap (handleSpeedChange (\<lambda>_. Num 0.02) ''Earth'' ''0.02'' init_app) ! 0) ''Earth''
     = Some (Num 0.01)"
  using handleSpeedChange_replaces_one_entry [of init_app "\<lambda>_. Num 0.02" "''Earth''" "''0.02''"]
  by (simp add: Let_def initial_speeds_def fromEntries_def planetsData_def)

text \<open>
  C6. For a window of positive size, \<open>onMouseMove\<close> computes the normalized pointer
  \<open>x = (clientX / width) * 2 - 1\<close>, \<open>y = - (clientY / height) * 2 + 1\<close> (within \<open>[-1, 1]\<close>
  for a pointer inside the window). Its result depends on the ray test only through
  the hits on the list of the planet meshes, the one list it passes. With the planet
  meshes of a scene the effect built, and a ray test whose hits are among the objects
  it was given: when nothing is hit the tooltip is hidden; otherwise the first (nearest)
  hit is a planet mesh, never the sun, the star field or the light, and the tooltip is
  shown at the pointer position plus 10 pixels on each axis with that planet's name as
  its text.
\<close>

theorem onMouseMove_picks_planet:
  assumes size: "0 < w" "0 < h"
    and ids: "map (\<lambda>p. mesh_id (mesh p)) planets = map PlanetMesh [0..<length planets]"
    and hits: "hits = intersectObjects (mouse_ndc w h ev) (map mesh planets)"
    and lib: "set hits \<subseteq> set (map (\<lambda>p. mesh_id (mesh p)) planets)"
  shows "mouse_ndc w h ev = ((clientX ev / w) * 2 - 1, - (clientY ev / h) * 2 + 1)
    \<and> (0 \<le> clientX ev \<and> clientX ev \<le> w \<and> 0 \<le> clientY ev \<and> clientY ev \<le> h \<longrightarrow>
         - 1 \<le> fst (mouse_ndc w h ev) \<and> fst (mouse_ndc w h ev) \<le> 1
       \<and> - 1 \<le> snd (mouse_ndc w h ev) \<and> snd (mouse_ndc w h ev) \<le> 1)
    \<and> (\<forall>g. g (mouse_ndc w h ev) (map mesh planets) = hits \<longrightarrow>
            onMouseMove g w h planets ev tt = onMouseMove intersectObjects w h planets ev tt)
    \<and> (hits = [] \<longrightarrow>
          onMouseMove intersectObjects w h planets ev (Some t)
            = Some (t\<lparr>style_display := Some ''none''\<rparr>))
    \<and> (\<forall>hit rest. hits = hit # rest \<longrightarrow>
          hit \<noteq> Sun \<and> hit \<noteq> StarField \<and> hit \<noteq> Light \<and>
          (\<exists>i < length planets. hit = PlanetMesh i \<and>
             onMouseMove intersectObjects w h planets ev (Some t)
               = Some (t\<lparr>style_left := Some (Px (clientX ev + 10)),
                         style_top := Some (Px (clientY ev + 10)),
                         innerHTML := name (data (planets ! i)),
                         style_display := Some ''block''\<rparr>)))"
proof (intro conjI allI impI)
  show "mouse_ndc w h ev = ((clientX ev / w) * 2 - 1, - (clientY ev / h) * 2 + 1)"
    by (simp add: mouse_ndc_def)
next
  assume b: "0 \<le> clientX ev \<and> clientX ev \<le> w \<and> 0 \<le> clientY ev \<and> clientY ev \<le> h"
  have x: "0 \<le> clientX ev / w" "clientX ev / w \<le> 1"
    using b size by (simp_all add: divide_le_eq)
  have y: "0 \<le> clientY ev / h" "clientY ev / h \<le> 1"
    using b size by (simp_all add: divide_le_eq)
  have f: "fst (mouse_ndc w h ev) = (clientX ev / w) * 2 - 1"
    and s: "snd (mouse_ndc w h ev) = - (clientY ev / h) * 2 + 1"
    by (simp_all add: mouse_ndc_def)
  have aux: "- 1 \<le> r * 2 - 1 \<and> r * 2 - 1 \<le> 1 \<and> - 1 \<le> - r * 2 + 1 \<and> - r * 2 + 1 \<le> 1"
    if "0 \<le> r" "r \<le> 1" for r :: real
    using that by simp
  show "- 1 \<le> fst (mouse_ndc w h ev)" unfolding f using aux [OF x] by blast
  show "fst (mouse_ndc w h ev) \<le> 1" unfolding f using aux [OF x] by blast
  show "- 1 \<le> snd (mouse_ndc w h ev)" unfolding s using aux [OF y] by blast
  show "snd (mouse_ndc w h ev) \<le> 1" unfolding s using aux [OF y] by blast
next
  fix g assume "g (mouse_ndc w h ev) (map mesh planets) = hits"
  then show "onMouseMove g w h planets ev tt = onMouseMove intersectObjects w h planets ev tt"
    using hits by (simp add: onMouseMove_def)
next
  assume "hits = []"
  then have "intersectObjects (mouse_ndc w h ev) (map mesh planets) = []"
    using hits by simp
  then show "onMouseMove intersectObjects w h planets ev (Some t)
            = Some (t\<lparr>style_display := Some ''none''\<rparr>)"
    by (simp add: onMouseMove_def Let_def)
next
  fix hit rest assume h: "hits = hit # rest"
  then have "hit \<in> PlanetMesh ` {0..<length planets}"
    using lib ids by auto
  then obtain i where i: "i < length planets" "hit = PlanetMesh i" by auto
  show "hit \<noteq> Sun" "hit \<noteq> StarField" "hit \<noteq> Light" using i by simp_all
  have io: "intersectObjects (mouse_ndc w h ev) (map mesh planets) = hit # rest"
    using hits h by simp
  have "find (\<lambda>p. mesh_id (mesh p) = hit) planets = Some (planets ! i)"
    using find_by_id [OF ids i(1)] i(2) by simp
  then have "onMouseMove intersectObjects w h planets ev (Some t)
               = Some (t\<lparr>style_left := Some (Px (clientX ev + 10)),
                         style_top := Some (Px (clientY ev + 10)),
                         innerHTML := name (data (planets ! i)),
                         style_display := Some ''block''\<rparr>)"
    by (simp add: onMouseMove_def Let_def io)
  then show "\<exists>i < length planets. hit = PlanetMesh i \<and>
             onMouseMove intersectObjects w h planets ev (Some t)
               = Some (t\<lparr>style_left := Some (Px (clientX ev + 10)),
                         style_top := Some (Px (clientY ev + 10)),
                         innerHTML := name (data (planets ! i)),
                         style_display := Some ''block''\<rparr>)"
    using i by blast
qed


theorem onMouseMove_picks_planet_witness:
  "onMouseMove (\<lambda>_ _. [PlanetMesh 2, PlanetMesh 0]) 200 100 (new_planets (\<lambda>_. 0) 0)
      \<lparr>clientX = 100, clientY = 50\<rparr> (tooltipRef init_app)
     = Some \<lparr>style_left = Some (Px 110), style_top = Some (Px 60),
             style_display = Some ''block'', innerHTML = ''Earth''\<rparr>"
proof -
  let ?ps = "new_planets (\<lambda>_. 0) 0"
  let ?io = "\<lambda>(_ :: real \<times> real) (_ :: mesh list). [PlanetMesh 2, PlanetMesh 0]"
  let ?ev = "\<lparr>clientX = 100, clientY = 50\<rparr>"
  let ?t = "\<lparr>style_left = None, style_top = None, style_display = None, innerHTML = []\<rparr>"
  have ids: "map (\<lambda>p. mesh_id (mesh p)) ?ps = map PlanetMesh [0..<length ?ps]"
    by (simp add: new_planets_ids)
  have lib: "set [PlanetMesh 2, PlanetMesh 0] \<subseteq> set (map (\<lambda>p. mesh_id (mesh p)) ?ps)"
    by (simp add: new_planets_ids upt_8)
  have hits: "[PlanetMesh 2, PlanetMesh 0] = ?io (mouse_ndc 200 100 ?ev) (map mesh ?ps)"
    by simp
  have size: "(0::real) < 200" "(0::real) < 100"
    by simp_all
  have "\<exists>i < length ?ps. PlanetMesh 2 = PlanetMesh i \<and>
          onMouseMove ?io 200 100 ?ps ?ev (Some ?t)
            = Some (?t\<lparr>style_left := Some (Px (clientX ?ev + 10)),
                      style_top := Some (Px (clientY ?ev + 10)),
                      innerHTML := name (data (?ps ! i)),
                      style_display := Some ''block''\<rparr>)"
    using onMouseMove_picks_planet [of 200 100 ?ps "[PlanetMesh 2, PlanetMesh 0]" ?io ?ev None ?t,
        OF size ids hits lib]
    by blast
  then have "onMouseMove ?io 200 100 ?ps ?ev (Some ?t)
            = Some (?t\<lparr>style_left := Some (Px (clientX ?ev + 10)),
                      style_top := Some (Px (clientY ?ev + 10)),
                      innerHTML := name (data (?ps ! 2)),
                      style_display := Some ''block''\<rparr>)"
    by auto
  moreover have "name (data (?ps ! 2)) = ''Earth''"
    by (simp add: new_planets_def planetsData_def new_planet_def)
  ultimately show ?thesis
    by (simp add: init_app_def)
qed

text \<open>
  C7 on the code: mount, then unmount. Mounting inserts one canvas into the container
  and registers the two window listeners. At the unmount \<open>mountRef.current\<close> is null when
  the cleanup runs: the cleanup removes both listeners, and its \<open>removeChild\<close> line
  throws a TypeError, so that nothing but the listeners has changed and the canvas is
  never taken out of its container. The same cleanup run with the ref attached, as
  when the effect runs again, does remove the canvas.
\<close>

theorem unmount_throws_before_removing_canvas:
  "fst (mount rnd) = None
   \<and> mountRef (snd (mount rnd)) = Some [0]
   \<and> listeners (snd (mount rnd)) = [(''mousemove'', 0), (''resize'', 0)]
   \<and> fst (unmount (snd (mount rnd))) = Some TypeError
   \<and> snd (unmount (snd (mount rnd))) = (snd (mount rnd))\<lparr>mountRef := None, listeners := []\<rparr>
   \<and> fst (cleanup 0 (snd (mount rnd))) = None
   \<and> mountRef (snd (cleanup 0 (snd (mount rnd)))) = Some []
   \<and> listeners (snd (cleanup 0 (snd (mount rnd)))) = []"
proof -
  let ?a = "snd (mount rnd)"
  have m: "mountRef ?a = Some [0]" and l: "listeners ?a = [(''mousemove'', 0), (''resize'', 0)]"
    and e: "length (effects ?a) - 1 = 0"
    by (simp_all add: mount_fields addEventListener_def)
  have u: "unmount ?a = cleanup 0 (?a\<lparr>mountRef := None\<rparr>)"
    using e by (simp add: unmount_def)
  have "cleanup 0 (?a\<lparr>mountRef := None\<rparr>)
          = (Some TypeError, ?a\<lparr>mountRef := None, listeners := []\<rparr>)"
    using l by (simp add: cleanup_def removeEventListener_def Let_def)
  then show ?thesis
    using cleanup_fields [of ?a "[0]" 0] m l by (simp add: u mount_fields)
qed

text \<open>
  C8. At startup the speed mapping has exactly the eight planet names as keys, each
  mapped to the \<open>speed\<close> of its descriptor; the value of each planet's range input is
  the entry of that planet in the current mapping, hence its descriptor's speed at
  startup and after mounting.
\<close>

theorem initial_speeds_and_sliders:
  "map (\<lambda>p. initial_speeds (name p)) planetsData = map (\<lambda>p. Some (Num (speed p))) planetsData
   \<and> dom initial_speeds = set (map name planetsData)
   \<and> length planetsData = 8
   \<and> distinct (map name planetsData)
   \<and> heap init_app ! speeds init_app = initial_speeds
   \<and> heap (snd (mount rnd)) ! speeds (snd (mount rnd)) = initial_speeds
   \<and> map r_value (render_controls a) = map (\<lambda>p. (heap a ! speeds a) (name p)) planetsData
   \<and> map r_value (render_controls init_app) = map (\<lambda>p. Some (Num (speed p))) planetsData
   \<and> map r_value (render_controls (snd (mount rnd))) = map (\<lambda>p. Some (Num (speed p))) planetsData"
proof -
  have 1: "map (\<lambda>p. initial_speeds (name p)) planetsData
             = map (\<lambda>p. Some (Num (speed p))) planetsData"
    by (simp add: initial_speeds_def fromEntries_def planetsData_def)
  have 2: "dom initial_speeds = set (map name planetsData)"
    by (auto simp: initial_speeds_def fromEntries_def planetsData_def)
  have 3: "length planetsData = 8" "distinct (map name planetsData)"
    by (simp_all add: planetsData_def)
  have 4: "map r_value (render_controls b) = map (\<lambda>p. (heap b ! speeds b) (name p)) planetsData"
    for b by (simp add: render_controls_def comp_def)
  show ?thesis
    using 1 2 3 by (simp add: 4 mount_fields)
qed

text \<open>
  C9 on the code: mount, one frame, a click on the pause button, one more frame. The
  click rebuilt the scene with the pause flag set, and a paused \<open>animate\<close> never
  writes a position: Mercury, of orbital distance 4, is at the origin, where its mesh
  was created, so \<open>x * x + z * z\<close> is 0 and not 16.
\<close>

theorem paused_scene_planets_at_origin:
  "let a = snd (run (\<lambda>_. NaN) (\<lambda>_. 0) [AnimationFrame, Click, AnimationFrame] (snd (mount (\<lambda>_. 0))));
       p = c_planets (last (effects a)) ! 0
   in isPaused a
    \<and> name (data p) = ''Mercury''
    \<and> distance (data p) = 4
    \<and> position (mesh p) = \<lparr>pos_x = Num 0, pos_y = Num 0, pos_z = Num 0\<rparr>
    \<and> num_add (num_mul (pos_x (position (mesh p))) (pos_x (position (mesh p))))
               (num_mul (pos_z (position (mesh p))) (pos_z (position (mesh p)))) = Num 0
    \<and> Num (distance (data p) * distance (data p)) = Num 16"
proof -
  let ?pf = "\<lambda>_ :: string. NaN"
  let ?rnd = "\<lambda>_ :: nat. 0 :: real"
  let ?a0 = "frame (snd (mount ?rnd))"
  let ?a1 = "snd (step ?pf ?rnd Click ?a0)"
  note d = two_clicks_Mercury [of ?pf ?rnd]
  obtain b where b: "step ?pf ?rnd Click ?a0 = (None, b)"
    using d by (metis prod.collapse)
  then have b1: "b = ?a1"
    by simp
  have r: "run ?pf ?rnd [AnimationFrame, Click, AnimationFrame] (snd (mount ?rnd))
             = (None, frame b)"
    using b by (simp del: step.simps(2))
  show ?thesis
    unfolding r b1 Let_def snd_conv using d
    by (simp del: step.simps)
qed

text \<open>
  C10. Each planet's initial angle is \<open>Math.random() * Math.PI * 2\<close> for a draw of its
  own, hence in \<open>[0, 2\<pi>)\<close> for a draw in \<open>[0, 1)\<close>. A click on the pause button or a
  slider change on the mounted component runs the effect again: it adds a closure,
  whose canvas replaces the previous one, and whose planets are built from 8 draws that
  come after all earlier ones (and after the 30000 draws of its stars). And the
  construction is not a function of its inputs: two mounts, which differ in nothing but
  the outcomes of \<open>Math.random\<close>, put Mercury at different positions.
\<close>

theorem scene_construction_draws_fresh_angles:
  assumes "mounted a" and "e = Click \<or> e = Change n v"
  shows "(\<forall>j<8. angle (data (new_planets rnd k ! j)) = Num (rnd (k + j) * pi * 2))
    \<and> (\<forall>j<8. 0 \<le> rnd (k + j) \<and> rnd (k + j) < 1 \<longrightarrow>
          (\<exists>t. angle (data (new_planets rnd k ! j)) = Num t \<and> 0 \<le> t \<and> t < 2 * pi))
    \<and> (let a' = snd (step pf rnd e a)
        in fst (step pf rnd e a) = None
         \<and> effects a' = effects a @ [last (effects a')]
         \<and> mountRef a' = Some [length (effects a)]
         \<and> draws a' = draws a + 30008
         \<and> c_planets (last (effects a')) =
             animate_planets (isPaused a') (heap a' ! speeds a')
               (new_planets rnd (draws a + 30000)))
    \<and> (\<exists>r1 r2. (\<forall>i. 0 \<le> r1 i \<and> r1 i < 1 \<and> 0 \<le> r2 i \<and> r2 i < 1)
          \<and> fst (mount r1) = None \<and> fst (mount r2) = None
          \<and> position (mesh (c_planets (last (effects (snd (mount r1)))) ! 0))
              \<noteq> position (mesh (c_planets (last (effects (snd (mount r2)))) ! 0)))"
proof (intro conjI)
  show "\<forall>j<8. angle (data (new_planets rnd k ! j)) = Num (rnd (k + j) * pi * 2)"
    by (simp add: new_planets_nth new_planet_def)
  show "\<forall>j<8. 0 \<le> rnd (k + j) \<and> rnd (k + j) < 1 \<longrightarrow>
          (\<exists>t. angle (data (new_planets rnd k ! j)) = Num t \<and> 0 \<le> t \<and> t < 2 * pi)"
    by (simp add: new_planets_nth new_planet_def)
  show "let a' = snd (step pf rnd e a)
        in fst (step pf rnd e a) = None
         \<and> effects a' = effects a @ [last (effects a')]
         \<and> mountRef a' = Some [length (effects a)]
         \<and> draws a' = draws a + 30008
         \<and> c_planets (last (effects a')) =
             animate_planets (isPaused a') (heap a' ! speeds a')
               (new_planets rnd (draws a + 30000))"
  proof (cases "e = Click")
    case True
    have s: "speeds a < length (heap a)" using assms(1) by (simp add: mounted_def)
    show ?thesis
      unfolding True Let_def using click_fields [OF assms(1), of pf rnd]
      by (simp add: planetsData_def del: step.simps)
  next
    case False
    then have e: "e = Change n v" using assms(2) by simp
    show ?thesis
      unfolding e Let_def using change_fields [OF assms(1), of pf rnd n v]
      by (simp add: planetsData_def del: step.simps)
  qed
  have "position (mesh (c_planets (last (effects (snd (mount (\<lambda>_. 0))))) ! 0))
              \<noteq> position (mesh (c_planets (last (effects (snd (mount (\<lambda>_. 1 / 2))))) ! 0))"
    using cos_step_pos by (simp add: mount_Mercury)
  moreover have "\<forall>i::nat. (0::real) \<le> 0 \<and> (0::real) < 1 \<and> (0::real) \<le> 1 / 2 \<and> (1 / 2 :: real) < 1"
    by simp
  ultimately show "\<exists>r1 r2. (\<forall>i. 0 \<le> r1 i \<and> r1 i < 1 \<and> 0 \<le> r2 i \<and> r2 i < 1)
          \<and> fst (mount r1) = None \<and> fst (mount r2) = None
          \<and> position (mesh (c_planets (last (effects (snd (mount r1)))) ! 0))
              \<noteq> position (mesh (c_planets (last (effects (snd (mount r2)))) ! 0))"
    using mounted_mount(1)
    by (intro exI [of _ "\<lambda>_. 0"] exI [of _ "\<lambda>_. 1 / 2"]) simp
qed

theorem scene_construction_draws_fresh_angles_witness:
  "draws (snd (step (\<lambda>_. NaN) (\<lambda>_. 1 / 4) Click (snd (mount (\<lambda>_. 1 / 4))))) = 60016
   \<and> mountRef (snd (step (\<lambda>_. NaN) (\<lambda>_. 1 / 4) Click (snd (mount (\<lambda>_. 1 / 4))))) = Some [1]
   \<and> angle (data (new_planets (\<lambda>_. 1 / 4) 30000 ! 2)) = Num (pi / 2)"
  using scene_construction_draws_fresh_angles [of "snd (mount (\<lambda>_. 1 / 4))" Click "''Earth''" "''0.02''" "\<lambda>_. 1 / 4" 30000 "\<lambda>_. NaN"]
    mounted_mount(2) [of "\<lambda>_. 1 / 4"]
  by (simp add: Let_def mount_fields planetsData_def del: step.simps)

end
